theory Spec2Isabelle
  imports Complex_Main "HOL-Library.Sublist" "HOL-Library.List_Lexorder" "HOL-Library.Char_ord"
    "HOL-Library.Multiset"
begin

section \<open>Python strings and containers\<close>

text \<open>
  A Python \<open>str\<close> is a sequence of code points and is modelled as a \<open>string\<close>, one
  \<open>char\<close> per code point. HOL's \<open>char\<close> has 256 values; the case mapping and the
  white-space test below are those of Python on that range. Lists of strings are ordered as
  Python orders them, by code point, which is the lexicographic order on \<open>char list\<close>.
  Python's unbounded \<open>int\<close> is \<open>int\<close>. A \<open>float\<close> is the \<open>real\<close> it stands for; the
  operations on floats round, and are those of the interpreter (see \<open>runtime\<close> below).
\<close>

text \<open>\<open>s.split("\n")\<close>: never the empty list.\<close>

fun split_nl :: "string \<Rightarrow> string list" where
  "split_nl [] = [[]]"
| "split_nl (c # cs) =
     (if c = CHR 0x0A then [] # split_nl cs
      else (case split_nl cs of [] \<Rightarrow> [[c]] | l # ls \<Rightarrow> (c # l) # ls))"

text \<open>\<open>s.split(c)\<close> for a one-character \<open>c\<close>.\<close>

fun split_on :: "char \<Rightarrow> string \<Rightarrow> string list" where
  "split_on sep [] = [[]]"
| "split_on sep (c # cs) =
     (if c = sep then [] # split_on sep cs
      else (case split_on sep cs of [] \<Rightarrow> [[c]] | l # ls \<Rightarrow> (c # l) # ls))"

text \<open>\<open>sep.join(xs)\<close>.\<close>

fun join_with :: "string \<Rightarrow> string list \<Rightarrow> string" where
  "join_with sep [] = []"
| "join_with sep [l] = l"
| "join_with sep (l # m # ls) = l @ sep @ join_with sep (m # ls)"

definition join_nl :: "string list \<Rightarrow> string" where
  "join_nl ls = join_with ''\<newline>'' ls"

definition lower_char :: "char \<Rightarrow> char" where
  "lower_char c =
     (let n = (of_char c :: nat)
      in if (65 \<le> n \<and> n \<le> 90) \<or> (192 \<le> n \<and> n \<le> 222 \<and> n \<noteq> 215) then char_of (n + 32) else c)"

text \<open>\<open>s.lower()\<close>.\<close>

definition lower :: "string \<Rightarrow> string" where
  "lower s = map lower_char s"

text \<open>\<open>sub in s\<close>, written \<open>contains s sub\<close>.\<close>

fun contains :: "string \<Rightarrow> string \<Rightarrow> bool" where
  "contains [] sub = (sub = [])"
| "contains (c # cs) sub = (prefix sub (c # cs) \<or> contains cs sub)"

text \<open>\<open>s.endswith(t)\<close>.\<close>

definition endswith :: "string \<Rightarrow> string \<Rightarrow> bool" where
  "endswith s t = suffix t s"

definition is_space :: "char \<Rightarrow> bool" where
  "is_space c = ((of_char c :: nat) \<in> {9, 10, 11, 12, 13, 28, 29, 30, 31, 32, 133, 160})"

text \<open>\<open>s.lstrip()\<close> and \<open>s.strip()\<close>.\<close>

definition lstrip :: "string \<Rightarrow> string" where
  "lstrip s = dropWhile is_space s"

definition strip :: "string \<Rightarrow> string" where
  "strip s = rev (dropWhile is_space (rev (dropWhile is_space s)))"

text \<open>\<open>s.replace(c, t)\<close> for a one-character \<open>c\<close>.\<close>

definition replace_char :: "char \<Rightarrow> string \<Rightarrow> string \<Rightarrow> string" where
  "replace_char c t s = concat (map (\<lambda>x. if x = c then t else [x]) s)"

text \<open>\<open>s.replace(old, "")\<close>; with an empty \<open>old\<close> the string is unchanged.\<close>

function remove_all :: "string \<Rightarrow> string \<Rightarrow> string" where
  "remove_all old [] = []"
| "remove_all old (c # cs) =
     (if old \<noteq> [] \<and> prefix old (c # cs) then remove_all old (drop (length old) (c # cs))
      else c # remove_all old cs)"
  by pat_completeness auto
termination
  by (relation "measure (\<lambda>(old, s). length s)") (auto simp: neq_Nil_conv)

text \<open>\<open>s.count(c)\<close> for a one-character \<open>c\<close>.\<close>

definition count_char :: "char \<Rightarrow> string \<Rightarrow> nat" where
  "count_char c s = length (filter (\<lambda>x. x = c) s)"

text \<open>
  A \<open>dict\<close> keeps its keys in the order of their first insertion; it is an association
  list in that order. \<open>dict_add d k n\<close> is \<open>d[k] += n\<close> on a \<open>defaultdict(int)\<close>, and
  \<open>dict_keys ks\<close> are the keys of \<open>{k: \<dots> for k in ks}\<close>.
\<close>

fun dict_add :: "('k \<times> int) list \<Rightarrow> 'k \<Rightarrow> int \<Rightarrow> ('k \<times> int) list" where
  "dict_add [] k n = [(k, n)]"
| "dict_add ((k', v) # d) k n =
     (if k' = k then (k', v + n) # d else (k', v) # dict_add d k n)"

definition dict_keys :: "'k list \<Rightarrow> 'k list" where
  "dict_keys ks = rev (remdups (rev ks))"

text \<open>\<open>sorted(xs, key=k, reverse=True)\<close>: descending and stable, as Python's sort is.\<close>

definition sorted_desc :: "('a \<Rightarrow> real) \<Rightarrow> 'a list \<Rightarrow> 'a list" where
  "sorted_desc k xs = sort_key (\<lambda>x. - k x) xs"

section \<open>Paths\<close>

definition os_sep :: string where
  "os_sep = ''/''"

text \<open>\<open>os.path.join(a, b)\<close> for a name \<open>b\<close> of a directory entry.\<close>

definition path_join :: "string \<Rightarrow> string \<Rightarrow> string" where
  "path_join a b = (if a = [] \<or> endswith a os_sep then a @ b else a @ os_sep @ b)"

text \<open>
  \<open>str(Path(a) / b)\<close> for a name \<open>b\<close> of a directory entry. A \<open>Path\<close> keeps the root of
  its text (two leading separators, or one for any other number of them) and its
  components other than the empty one and \<open>.\<close>.
\<close>

definition path_anchor :: "string \<Rightarrow> string" where
  "path_anchor a =
     (if prefix ''//'' a \<and> \<not> prefix ''///'' a then ''//''
      else if prefix ''/'' a then ''/'' else [])"

definition path_parts :: "string \<Rightarrow> string list" where
  "path_parts a = filter (\<lambda>p. p \<noteq> [] \<and> p \<noteq> ''.'') (split_on CHR ''/'' a)"

definition path_str :: "string \<Rightarrow> string \<Rightarrow> string" where
  "path_str a b = path_anchor a @ join_with os_sep (path_parts a @ [b])"

text \<open>\<open>os.path.basename(p)\<close>: what follows the last separator.\<close>

definition basename :: "string \<Rightarrow> string" where
  "basename p = rev (takeWhile (\<lambda>c. c \<noteq> CHR ''/'') (rev p))"

text \<open>
  \<open>Path(name).suffix\<close>: from the last dot on, when that dot is neither the first nor the
  last character of the name.
\<close>

definition path_suffix :: "string \<Rightarrow> string" where
  "path_suffix nm =
     (if CHR ''.'' \<notin> set nm then []
      else (let k = length (takeWhile (\<lambda>c. c \<noteq> CHR ''.'') (rev nm));
                i = length nm - 1 - k
            in if 0 < i \<and> 0 < k then drop i nm else []))"

text \<open>
  \<open>os.path.relpath(fp, root)\<close> for a file below the root: the directory names walked
  from the root and the file name, joined by the separator.
\<close>

definition relpath :: "string list \<Rightarrow> string" where
  "relpath parts = join_with os_sep parts"

section \<open>Configuration tables\<close>

definition LANGUAGE_MAP :: "(string \<times> string \<times> string) list" where
  "LANGUAGE_MAP =
     [(''.py'', ''Python'', ''#3572A5''),
      (''.js'', ''JavaScript'', ''#f1e05a''),
      (''.ts'', ''TypeScript'', ''#3178c6''),
      (''.jsx'', ''React JSX'', ''#61dafb''),
      (''.tsx'', ''React TSX'', ''#3178c6''),
      (''.c'', ''C'', ''#555555''),
      (''.cpp'', ''C++'', ''#f34b7d''),
      (''.h'', ''C/C++ Header'', ''#555555''),
      (''.hpp'', ''C++ Header'', ''#f34b7d''),
      (''.rs'', ''Rust'', ''#dea584''),
      (''.go'', ''Go'', ''#00ADD8''),
      (''.java'', ''Java'', ''#b07219''),
      (''.kt'', ''Kotlin'', ''#A97BFF''),
      (''.swift'', ''Swift'', ''#F05138''),
      (''.rb'', ''Ruby'', ''#701516''),
      (''.php'', ''PHP'', ''#4F5D95''),
      (''.cs'', ''C#'', ''#178600''),
      (''.cu'', ''CUDA'', ''#76b900''),
      (''.cuh'', ''CUDA Header'', ''#76b900''),
      (''.sh'', ''Shell'', ''#89e051''),
      (''.bat'', ''Batch'', ''#C1F12E''),
      (''.sql'', ''SQL'', ''#e38c00''),
      (''.proto'', ''Protobuf'', ''#4285F4''),
      (''.zig'', ''Zig'', ''#ec915c''),
      (''.lua'', ''Lua'', ''#000080''),
      (''.scala'', ''Scala'', ''#c22d40''),
      (''.r'', ''R'', ''#198CE7''),
      (''.dart'', ''Dart'', ''#00B4AB''),
      (''.ex'', ''Elixir'', ''#6e4a7e''),
      (''.exs'', ''Elixir Script'', ''#6e4a7e''),
      (''.vue'', ''Vue'', ''#41b883''),
      (''.svelte'', ''Svelte'', ''#ff3e00''),
      (''.json'', ''JSON'', ''#292929''),
      (''.yaml'', ''YAML'', ''#cb171e''),
      (''.yml'', ''YAML'', ''#cb171e''),
      (''.toml'', ''TOML'', ''#9c4221''),
      (''.xml'', ''XML'', ''#0060ac''),
      (''.ini'', ''INI'', ''#d1dbe0''),
      (''.cfg'', ''Config'', ''#d1dbe0''),
      (''.env'', ''Env'', ''#ECD53F''),
      (''.properties'', ''Properties'', ''#2A6277''),
      (''.html'', ''HTML'', ''#e34c26''),
      (''.htm'', ''HTML'', ''#e34c26''),
      (''.css'', ''CSS'', ''#563d7c''),
      (''.scss'', ''SCSS'', ''#c6538c''),
      (''.sass'', ''Sass'', ''#a53b70''),
      (''.less'', ''Less'', ''#1d365d''),
      (''.md'', ''Markdown'', ''#083fa1''),
      (''.rst'', ''reStructuredText'', ''#141414''),
      (''.txt'', ''Text'', ''#888888''),
      (''.dockerfile'', ''Dockerfile'', ''#384d54''),
      (''.makefile'', ''Makefile'', ''#427819''),
      (''.cmake'', ''CMake'', ''#DA3434''),
      (''.gradle'', ''Gradle'', ''#02303A''),
      (''.tf'', ''Terraform'', ''#5C4EE5''),
      (''.hcl'', ''HCL'', ''#5C4EE5''),
      (''.csv'', ''CSV'', ''#237346''),
      (''.graphql'', ''GraphQL'', ''#e10098''),
      (''.prisma'', ''Prisma'', ''#2D3748'')]"

definition SPECIAL_FILENAMES :: "(string \<times> string \<times> string) list" where
  "SPECIAL_FILENAMES =
     [(''Dockerfile'', ''Dockerfile'', ''#384d54''),
      (''Makefile'', ''Makefile'', ''#427819''),
      (''Procfile'', ''Procfile'', ''#6e4a7e''),
      (''Vagrantfile'', ''Vagrantfile'', ''#1563FF''),
      (''Gemfile'', ''Gemfile'', ''#701516''),
      (''Rakefile'', ''Rakefile'', ''#701516''),
      (''Justfile'', ''Justfile'', ''#384d54''),
      (''.gitignore'', ''Gitignore'', ''#F05032''),
      (''.dockerignore'', ''Dockerignore'', ''#384d54''),
      (''requirements.txt'', ''Requirements'', ''#3572A5''),
      (''package.json'', ''Package JSON'', ''#f1e05a''),
      (''tsconfig.json'', ''TS Config'', ''#3178c6''),
      (''Cargo.toml'', ''Cargo Config'', ''#dea584''),
      (''go.mod'', ''Go Module'', ''#00ADD8''),
      (''go.sum'', ''Go Sum'', ''#00ADD8''),
      (''pyproject.toml'', ''PyProject'', ''#3572A5''),
      (''setup.py'', ''Setup Script'', ''#3572A5''),
      (''setup.cfg'', ''Setup Config'', ''#3572A5''),
      (''docker-compose.yml'', ''Docker Compose'', ''#384d54''),
      (''docker-compose.yaml'', ''Docker Compose'', ''#384d54''),
      (''.env.example'', ''Env Example'', ''#ECD53F'')]"

definition IGNORE_PATHS :: "string list" where
  "IGNORE_PATHS =
     [''node_modules'', ''.git'', ''__pycache__'', ''venv'', ''.venv'', ''env'', ''dist'', ''build'', ''.next'', ''target'', ''vendor'', ''coverage'', ''.vscode'', ''.idea'', ''bin'', ''obj'', ''logs'', ''tmp'', ''.cache'', ''.tox'', ''.mypy_cache'', ''.pytest_cache'', ''egg-info'']"

definition BRANCH_KW :: "(string \<times> string list) list" where
  "BRANCH_KW =
     [(''.py'', [''if '', ''elif '', ''else:'', ''for '', ''while '', ''except '', ''with '']),
      (''.js'', [''if '', ''else '', ''for '', ''while '', ''switch '', ''case '', ''catch '']),
      (''.ts'', [''if '', ''else '', ''for '', ''while '', ''switch '', ''case '', ''catch '']),
      (''.jsx'', [''if '', ''else '', ''for '', ''while '', ''switch '', ''case '', ''catch '']),
      (''.tsx'', [''if '', ''else '', ''for '', ''while '', ''switch '', ''case '', ''catch '']),
      (''.go'', [''if '', ''else '', ''for '', ''switch '', ''case '', ''select '']),
      (''.rs'', [''if '', ''else '', ''for '', ''while '', ''match '', ''loop '']),
      (''.java'', [''if '', ''else '', ''for '', ''while '', ''switch '', ''case '', ''catch '']),
      (''.c'', [''if '', ''else '', ''for '', ''while '', ''switch '', ''case '']),
      (''.cpp'', [''if '', ''else '', ''for '', ''while '', ''switch '', ''case '', ''catch ''])]"

definition SUPPORTED_EXTENSIONS :: "string list" where
  "SUPPORTED_EXTENSIONS = map fst LANGUAGE_MAP"

text \<open>
  The regular expressions of \<open>IMPORT_PATTERNS\<close>, by name; matching them is the work of
  \<open>re.findall\<close>, which belongs to the interpreter, and which first compiles the pattern. \<open>PyImport\<close> and \<open>PyFrom\<close> are the
  two Python patterns (a line that starts with \<open>import\<close>, or with \<open>from\<close> and goes on to
  \<open>import\<close>), \<open>JsImportFrom\<close> and \<open>JsRequire\<close> the two shared by the four
  JavaScript and TypeScript extensions, \<open>GoQuoted\<close> the quoted path of Go, \<open>RustUse\<close>
  and \<open>JavaImport\<close> the line-initial \<open>use\<close> and \<open>import\<close>, and \<open>CInclude\<close> the
  \<open>#include\<close> of the four C-family extensions.
\<close>

datatype import_pattern =
    PyImport | PyFrom | JsImportFrom | JsRequire | GoQuoted | RustUse | JavaImport | CInclude

text \<open>
  The text of \<open>JsRequire\<close> closes one parenthesis more than it opens: compiling it
  raises \<open>re.error\<close>. The other seven compile.
\<close>

fun compiles :: "import_pattern \<Rightarrow> bool" where
  "compiles JsRequire = False"
| "compiles p = True"

definition IMPORT_PATTERNS :: "(string \<times> import_pattern list) list" where
  "IMPORT_PATTERNS =
     [(''.py'', [PyImport, PyFrom]),
      (''.js'', [JsImportFrom, JsRequire]),
      (''.ts'', [JsImportFrom, JsRequire]),
      (''.jsx'', [JsImportFrom, JsRequire]),
      (''.tsx'', [JsImportFrom, JsRequire]),
      (''.go'', [GoQuoted]),
      (''.rs'', [RustUse]),
      (''.java'', [JavaImport]),
      (''.c'', [CInclude]),
      (''.cpp'', [CInclude]),
      (''.h'', [CInclude]),
      (''.cu'', [CInclude])]"

section \<open>Data model\<close>

text \<open>
  \<open>FileNodeInfo\<close>, with its field \<open>imports\<close> under the name \<open>file_imports\<close>; the
  dicts of a dependency link (its key \<open>type\<close> is \<open>link_type\<close>), of a hotspot and of the
  summary, as records; a dict from names to numbers as an association list.
\<close>

record FileNodeInfo =
  path :: string
  relative_path :: string
  size_bytes :: int
  line_count :: int
  extension :: string
  language :: string
  language_color :: string
  last_modified :: string
  file_imports :: "string list"
  complexity_score :: real
  has_tests :: bool

record DependencyLink =
  source :: string
  target :: string
  link_type :: string
  raw :: string

record Hotspot =
  hs_file :: string
  hs_complexity :: real
  hs_lines :: int
  hs_language :: string

record Summary =
  name :: string
  total_files :: int
  total_lines :: int
  total_bytes :: int
  languages :: "(string \<times> int) list"
  dependency_links :: "DependencyLink list"
  hotspots :: "Hotspot list"
  most_connected :: "(string \<times> int) list"
  avg_complexity :: real

text \<open>
  The directory being scanned. A file has the result of \<open>fp.stat()\<close> and the text that
  \<open>open(fp, "r", encoding="utf-8", errors="ignore").read()\<close> returns, each \<open>None\<close> when
  the call raises. A directory lists its files and its subdirectories by name, in the
  order in which the operating system hands them to \<open>os.walk\<close>.
\<close>

record stat_result =
  st_size :: int
  st_mtime :: real

record fsfile =
  file_stat :: "stat_result option"
  file_text :: "string option"

datatype fsdir = Dir (dir_files: "(string \<times> fsfile) list") (dir_subdirs: "(string \<times> fsdir) list")

text \<open>
  What the interpreter and its libraries supply: the order in which \<open>list(set(xs))\<close>
  lists the elements of a set built from \<open>xs\<close> (it follows the hashes of the strings,
  which change with the hash seed of the process), \<open>re.findall\<close> with \<open>re.MULTILINE\<close>
  on a pattern that compiles, \<open>datetime.fromtimestamp(t).isoformat()\<close> (\<open>None\<close> when it
  raises), \<open>str\<close> of a number, \<open>json.dumps\<close> of the two values the header prints, and
  the arithmetic of binary floating point: the rounded sum, product and quotient of two
  floats, \<open>math.log10\<close>, \<open>round(x, 1)\<close>, and \<open>sum\<close> of a non-empty sequence of floats.
  A result of these is not the result of the same operation on the reals:
  \<open>0.05 * 0.35 * 100\<close> is a little less than \<open>1.75\<close> and rounds to \<open>1.7\<close>.
\<close>

record runtime =
  list_of_set :: "string list \<Rightarrow> string list"
  re_findall :: "import_pattern \<Rightarrow> string \<Rightarrow> string list"
  isoformat :: "real \<Rightarrow> string option"
  str_int :: "int \<Rightarrow> string"
  str_float :: "real \<Rightarrow> string"
  json_dumps_languages :: "(string \<times> int) list \<Rightarrow> string"
  json_dumps_links :: "DependencyLink list \<Rightarrow> string"
  fl_add :: "real \<Rightarrow> real \<Rightarrow> real"
  fl_mul :: "real \<Rightarrow> real \<Rightarrow> real"
  fl_div :: "real \<Rightarrow> real \<Rightarrow> real"
  fl_log10 :: "real \<Rightarrow> real"
  fl_round1 :: "real \<Rightarrow> real"
  fl_sum :: "real list \<Rightarrow> real"

text \<open>The fields of \<open>RepositoryProcessor\<close>.\<close>

record RepositoryProcessor =
  root :: string
  max_files :: int
  include_tests :: bool
  depth :: int

section \<open>ComplexityAnalyzer\<close>

text \<open>
  \<open>ComplexityAnalyzer.score\<close>, in two steps: the split of the text into lines, and the
  rest of the body on the list of lines.
\<close>

definition branch_keywords :: "string \<Rightarrow> string list" where
  "branch_keywords ext =
     (case map_of BRANCH_KW ext of Some kws \<Rightarrow> kws | None \<Rightarrow> [''if '', ''for '', ''while ''])"

definition branch_count :: "string list \<Rightarrow> string \<Rightarrow> nat" where
  "branch_count lines ext =
     length (filter (\<lambda>l. list_ex (\<lambda>kw. contains l kw) (branch_keywords ext)) lines)"

definition max_indent :: "string list \<Rightarrow> nat" where
  "max_indent lines =
     (let indents = map (\<lambda>l. length l - length (lstrip l)) (filter (\<lambda>l. strip l \<noteq> []) lines)
      in if indents = [] then 0 else Max (set indents))"

text \<open>
  The floats that the literals \<open>0.4\<close> and \<open>0.35\<close> denote; \<open>0.25\<close>, \<open>4.0\<close>, \<open>10.0\<close>
  and the whole numbers are exact. \<open>min(x, 100)\<close> is the whole number 100 when \<open>x\<close>
  exceeds it, and \<open>round(100, 1)\<close> is 100.
\<close>

definition double_0_4 :: real where
  "double_0_4 = 3602879701896397 / 9007199254740992"

definition double_0_35 :: real where
  "double_0_35 = 3152519739159347 / 9007199254740992"

definition score_lines :: "runtime \<Rightarrow> string list \<Rightarrow> string \<Rightarrow> real" where
  "score_lines rt lines ext =
     (let total = length lines
      in if total = 0 then 0
         else
           (let nesting = fl_div rt (min (fl_div rt (real (max_indent lines)) 4) 10) 10;
                density = min (fl_div rt (real (branch_count lines ext)) (real (max total 1))) 1;
                length_factor = min (fl_div rt (fl_log10 rt (real (max total 1))) 4) 1;
                weighted = fl_mul rt
                  (fl_add rt (fl_add rt (fl_mul rt density double_0_4) (fl_mul rt nesting double_0_35))
                     (fl_mul rt length_factor (1 / 4)))
                  100
            in if 100 < weighted then 100 else fl_round1 rt weighted))"

definition score :: "runtime \<Rightarrow> string \<Rightarrow> string \<Rightarrow> real" where
  "score rt content ext = score_lines rt (split_nl content) ext"

section \<open>RepositoryProcessor: the scan\<close>

text \<open>
  \<open>_extract_imports\<close>: \<open>None\<close> when \<open>re.findall\<close> raises, which it does on a pattern
  that does not compile, whatever the text.
\<close>

definition extract_imports :: "runtime \<Rightarrow> string \<Rightarrow> string \<Rightarrow> string list option" where
  "extract_imports rt content ext =
     (let patterns = (case map_of IMPORT_PATTERNS ext of Some ps \<Rightarrow> ps | None \<Rightarrow> [])
      in if list_all compiles patterns
         then Some (list_of_set rt (concat (map (\<lambda>p. re_findall rt p content) patterns)))
         else None)"

text \<open>\<open>re.sub(r"^\.\.?/", "", imp)\<close>: a leading \<open>./\<close> or \<open>../\<close> is removed.\<close>

definition strip_relative :: "string \<Rightarrow> string" where
  "strip_relative imp =
     (if prefix ''../'' imp then drop 3 imp else if prefix ''./'' imp then drop 2 imp else imp)"

definition import_candidates :: "string \<Rightarrow> string list" where
  "import_candidates imp =
     [replace_char CHR ''.'' os_sep imp, replace_char CHR ''.'' os_sep imp @ ''.py'',
      replace_char CHR ''/'' os_sep imp, replace_char CHR ''/'' os_sep imp @ ''.js'',
      replace_char CHR ''/'' os_sep imp @ ''.ts'', replace_char CHR ''/'' os_sep imp @ ''.tsx'',
      replace_char CHR ''/'' os_sep imp @ ''.jsx'',
      strip_relative imp]"

text \<open>
  \<open>_resolve_import\<close>: the candidates in the outer loop, the keys of \<open>all_files\<close> in the
  inner one; the first pair that matches returns its key.
\<close>

definition resolve_import :: "string \<Rightarrow> string list \<Rightarrow> string option" where
  "resolve_import imp all_files =
     (case List.find (\<lambda>(c, f). endswith f c \<or> contains f c)
             (List.product (import_candidates imp) all_files) of
        None \<Rightarrow> None
      | Some (c, f) \<Rightarrow> Some f)"

text \<open>
  \<open>os.walk(top)\<close>, top-down: the directory itself, then each subdirectory left in
  \<open>dirs\<close> by the loop body, in the order the body left them. The body's assignment to
  \<open>dirs[:]\<close> is the parameter \<open>prune\<close>, given the directory's path and the names found.
  The result lists, per directory, its path, the names walked from the root, and its files.
\<close>

function os_walk ::
  "(string \<Rightarrow> string list \<Rightarrow> string list) \<Rightarrow> string \<Rightarrow> string list \<Rightarrow> fsdir
     \<Rightarrow> (string \<times> string list \<times> (string \<times> fsfile) list) list" where
  "os_walk prune dirpath rel (Dir fs subs) =
     (dirpath, rel, fs) #
     concat (map (\<lambda>d. case map_of subs d of
                         None \<Rightarrow> []
                       | Some t \<Rightarrow> os_walk prune (path_join dirpath d) (rel @ [d]) t)
                 (prune dirpath (map fst subs)))"
  by pat_completeness auto
termination
proof (relation "measure (\<lambda>(prune, dirpath, rel, t). size t)")
  show "wf (measure (\<lambda>(prune, dirpath, rel, t). size t))" by simp
next
  fix prune :: "string \<Rightarrow> string list \<Rightarrow> string list"
    and dirpath :: string and rel :: "string list" and fs :: "(string \<times> fsfile) list"
    and subs :: "(string \<times> fsdir) list" and d :: string and t :: fsdir
  assume "map_of subs d = Some t"
  then have "(d, t) \<in> set subs" by (rule map_of_SomeD)
  then have "size t < Suc (size_list (size_prod (\<lambda>x. 0) size) subs)"
    by (induction subs) auto
  then show "((prune, path_join dirpath d, rel @ [d], t), (prune, dirpath, rel, Dir fs subs))
      \<in> measure (\<lambda>(prune, dirpath, rel, t). size t)"
    by simp
qed

text \<open>The loop variables of \<open>scan_and_read\<close>.\<close>

record scan_state =
  code_parts :: "string list"
  meta_list :: "FileNodeInfo list"
  lang_stats :: "(string \<times> int) list"
  lines_acc :: int
  bytes_acc :: int

definition scan_init :: scan_state where
  "scan_init = \<lparr>code_parts = [], meta_list = [], lang_stats = [], lines_acc = 0, bytes_acc = 0\<rparr>"

text \<open>The assignments to \<open>dirs[:]\<close> at the head of the scan's loop body.\<close>

definition scan_dirs :: "bool \<Rightarrow> string \<Rightarrow> string list \<Rightarrow> string list" where
  "scan_dirs inc_tests dirpath dirs =
     (let dirs = sort (filter (\<lambda>d. d \<notin> set IGNORE_PATHS) dirs)
      in if \<not> inc_tests
         then filter (\<lambda>d. \<not> contains (lower d) ''test'' \<and> \<not> contains (lower d) ''spec'') dirs
         else dirs)"

text \<open>\<open>show\<close>: the whole text up to 200 lines, else the first 120 and the last 50.\<close>

definition excerpt :: "string \<Rightarrow> string" where
  "excerpt content =
     (let lns = split_nl content
      in if length lns \<le> 200 then content
         else join_nl (take 120 lns @ [''...(truncated)...''] @ drop (length lns - 50) lns))"

definition code_part :: "runtime \<Rightarrow> string \<Rightarrow> string \<Rightarrow> int \<Rightarrow> real \<Rightarrow> string \<Rightarrow> string" where
  "code_part rt rel lang n cx content =
     ''\<newline>--- FILE: '' @ rel @ '' | '' @ lang @ '' | '' @ str_int rt n @
     '' lines | complexity='' @ str_float rt cx @ '' ---\<newline>'' @ excerpt content @ ''\<newline>''"

text \<open>
  One file of the inner loop, after the test of the cap. A \<open>continue\<close> and an exception
  caught by the \<open>except\<close> clause both leave the state as it is at that point: the
  exceptions of \<open>fp.stat()\<close>, of reading and of \<open>_extract_imports\<close> come before any
  update, an exception raised while the record is built comes after the three counters
  were updated.
\<close>

definition scan_file ::
  "runtime \<Rightarrow> string \<Rightarrow> string list \<Rightarrow> scan_state \<Rightarrow> string \<times> fsfile \<Rightarrow> scan_state" where
  "scan_file rt dirpath rel_dir st entry =
     (let (fn, file) = entry;
          fp = path_str dirpath fn;
          ext = lower (path_suffix fn);
          fname = fn;
          is_special = (fname \<in> set (map fst SPECIAL_FILENAMES) \<or>
                        lower fname \<in> set (map (\<lambda>k. lower (fst k)) SPECIAL_FILENAMES))
      in if ext \<notin> set SUPPORTED_EXTENSIONS \<and> \<not> is_special then st
         else
           (let rel = relpath (rel_dir @ [fn])
            in case file_stat file of
                 None \<Rightarrow> st
               | Some sr \<Rightarrow>
                   if st_size sr > 200000 then st
                   else
                     (case file_text file of
                        None \<Rightarrow> st
                      | Some content \<Rightarrow>
                          (let lns = split_nl content;
                               info = (if is_special \<and> ext \<notin> set SUPPORTED_EXTENSIONS
                                       then (case map_of SPECIAL_FILENAMES fname of
                                               Some i \<Rightarrow> i | None \<Rightarrow> (''Config'', ''#888''))
                                       else (case map_of LANGUAGE_MAP ext of
                                               Some i \<Rightarrow> i | None \<Rightarrow> (''Unknown'', ''#888'')))
                           in case extract_imports rt content ext of
                                None \<Rightarrow> st
                              | Some imports \<Rightarrow>
                                  (let cx = score rt content ext;
                                       st1 = st\<lparr>lang_stats := dict_add (lang_stats st) (fst info) (int (length lns)),
                                                lines_acc := lines_acc st + int (length lns),
                                                bytes_acc := bytes_acc st + st_size sr\<rparr>
                                   in case isoformat rt (st_mtime sr) of
                                        None \<Rightarrow> st1
                                      | Some modified \<Rightarrow>
                                          st1\<lparr>meta_list := meta_list st1 @
                                                 [\<lparr>path = fp, relative_path = rel, size_bytes = st_size sr,
                                                   line_count = int (length lns), extension = ext,
                                                   language = fst info, language_color = snd info,
                                                   last_modified = modified, file_imports = imports,
                                                   complexity_score = cx,
                                                   has_tests = contains (lower rel) ''test''\<rparr>],
                                              code_parts := code_parts st1 @
                                                 [code_part rt rel (fst info) (int (length lns)) cx content]\<rparr>)))))"

text \<open>The inner loop over \<open>sorted(files)\<close>, left by \<open>break\<close> once the cap is reached.\<close>

fun scan_files ::
  "runtime \<Rightarrow> int \<Rightarrow> string \<Rightarrow> string list \<Rightarrow> (string \<times> fsfile) list \<Rightarrow> scan_state \<Rightarrow> scan_state" where
  "scan_files rt cap dirpath rel_dir [] st = st"
| "scan_files rt cap dirpath rel_dir (entry # rest) st =
     (if cap \<le> int (length (meta_list st)) then st
      else scan_files rt cap dirpath rel_dir rest (scan_file rt dirpath rel_dir st entry))"

text \<open>The outer loop over the directories that \<open>os.walk\<close> yields.\<close>

fun scan_walk ::
  "runtime \<Rightarrow> int \<Rightarrow> (string \<times> string list \<times> (string \<times> fsfile) list) list \<Rightarrow> scan_state \<Rightarrow> scan_state" where
  "scan_walk rt cap [] st = st"
| "scan_walk rt cap ((dirpath, rel_dir, files) # rest) st =
     scan_walk rt cap rest (scan_files rt cap dirpath rel_dir (sort_key fst files) st)"

section \<open>RepositoryProcessor: links and aggregates\<close>

text \<open>
  The dependency links: for each record and each of its imports, the key that
  \<open>_resolve_import\<close> returns, kept when it is a non-empty string other than the record's
  own relative path. \<open>all_rels\<close> is the dict keyed by the relative paths of the records.
\<close>

definition build_dep_links :: "FileNodeInfo list \<Rightarrow> DependencyLink list" where
  "build_dep_links metas =
     (let all_rels = dict_keys (map relative_path metas)
      in concat (map (\<lambda>m. concat (map (\<lambda>imp.
                   case resolve_import imp all_rels of
                     None \<Rightarrow> []
                   | Some tgt \<Rightarrow>
                       if tgt \<noteq> [] \<and> tgt \<noteq> relative_path m
                       then [\<lparr>source = relative_path m, target = tgt,
                              link_type = ''imports'', raw = imp\<rparr>]
                       else [])
                 (file_imports m))) metas))"

definition build_hotspots :: "FileNodeInfo list \<Rightarrow> Hotspot list" where
  "build_hotspots metas =
     map (\<lambda>f. \<lparr>hs_file = relative_path f, hs_complexity = complexity_score f,
                hs_lines = line_count f, hs_language = language f\<rparr>)
         (take 5 (sorted_desc complexity_score metas))"

definition build_most_connected :: "DependencyLink list \<Rightarrow> (string \<times> int) list" where
  "build_most_connected links =
     (let conn = foldl (\<lambda>conn l. dict_add (dict_add conn (source l) 1) (target l) 1) [] links
      in take 5 (sorted_desc (\<lambda>x. real_of_int (snd x)) conn))"

text \<open>
  The summary. Its average is \<open>round(sum(...) / max(len(meta_list), 1), 1)\<close>; the \<open>sum\<close>
  of no score is the whole number 0.
\<close>

definition build_summary :: "runtime \<Rightarrow> RepositoryProcessor \<Rightarrow> scan_state \<Rightarrow> Summary" where
  "build_summary rt self st =
     (let dep_links = build_dep_links (meta_list st);
          scores = map complexity_score (meta_list st)
      in \<lparr>name = basename (root self),
          total_files = int (length (meta_list st)),
          total_lines = lines_acc st,
          total_bytes = bytes_acc st,
          languages = lang_stats st,
          dependency_links = dep_links,
          hotspots = build_hotspots (meta_list st),
          most_connected = build_most_connected dep_links,
          avg_complexity =
            fl_round1 rt (fl_div rt (if scores = [] then 0 else fl_sum rt scores)
                            (real_of_int (max (int (length (meta_list st))) 1)))\<rparr>)"

section \<open>RepositoryProcessor: the rendered tree\<close>

text \<open>
  The three code points above U+00FF that \<open>generate_tree\<close> prints are each one character
  of the model; only their number enters a length.
\<close>

definition bar_glyph :: char where
  "bar_glyph = CHR 0xB3"

definition folder_glyph :: char where
  "folder_glyph = CHR 0x01"

definition page_glyph :: char where
  "page_glyph = CHR 0x02"

text \<open>\<open>root.replace(self.root, "").count(os.sep)\<close>.\<close>

definition tree_level :: "string \<Rightarrow> string \<Rightarrow> nat" where
  "tree_level self_root dirpath = count_char CHR ''/'' (remove_all self_root dirpath)"

definition tree_dirs :: "RepositoryProcessor \<Rightarrow> string \<Rightarrow> string list \<Rightarrow> string list" where
  "tree_dirs self dirpath dirs =
     (let dirs = sort (filter (\<lambda>d. d \<notin> set IGNORE_PATHS) dirs)
      in if depth self \<le> int (tree_level (root self) dirpath) then [] else dirs)"

definition tree_lines ::
  "RepositoryProcessor \<Rightarrow> string \<times> string list \<times> (string \<times> fsfile) list \<Rightarrow> string list" where
  "tree_lines self walked =
     (let (dirpath, rel_dir, files) = walked;
          level = tree_level (root self) dirpath
      in if depth self \<le> int level then []
         else
           (let indent = concat (replicate level (bar_glyph # ''   ''));
                sub = concat (replicate (level + 1) (bar_glyph # ''   ''))
            in (indent @ folder_glyph # '' '' @ basename dirpath @ ''/'') #
               map (\<lambda>f. sub @ page_glyph # '' '' @ f)
                   (filter (\<lambda>f. path_suffix f \<in> set SUPPORTED_EXTENSIONS \<or>
                                 f \<in> set (map fst SPECIAL_FILENAMES))
                           (sort (map fst files)))))"

definition generate_tree :: "RepositoryProcessor \<Rightarrow> fsdir \<Rightarrow> string" where
  "generate_tree self fs =
     join_nl (concat (map (tree_lines self) (os_walk (tree_dirs self) (root self) [] fs)))"

section \<open>RepositoryProcessor: the payload\<close>

definition MAX_PAYLOAD_CHARS :: int where
  "MAX_PAYLOAD_CHARS = 300000"

definition entry_points :: "string list" where
  "entry_points = [''main'', ''app'', ''index'', ''server'']"

text \<open>The sort key of \<open>sorted_files\<close>.\<close>

definition importance :: "FileNodeInfo \<Rightarrow> real" where
  "importance m =
     complexity_score m +
     (if list_ex (\<lambda>e. contains (lower (relative_path m)) e) entry_points then 100 else 0)"

definition sorted_files :: "FileNodeInfo list \<Rightarrow> string list \<Rightarrow> (FileNodeInfo \<times> string) list" where
  "sorted_files metas parts = sorted_desc (\<lambda>x. importance (fst x)) (zip metas parts)"

definition truncated_marker :: string where
  "truncated_marker = ''\<newline>...(truncated)...\<newline>''"

definition first80_marker :: string where
  "first80_marker = ''\<newline>...(truncated to first 80 lines)...\<newline>''"

definition payload_marker :: string where
  "payload_marker = ''\<newline>\<newline>...(payload truncated to fit context window)...''"

definition omitted_header :: "FileNodeInfo \<Rightarrow> string" where
  "omitted_header meta =
     ''--- FILE: '' @ relative_path meta @ '' (content omitted - token limit) ---''"

text \<open>
  The body of the budgeting loop at rank \<open>i\<close>, on the pair \<open>(used, final_parts)\<close>.
\<close>

definition budget_step ::
  "int \<Rightarrow> nat \<Rightarrow> FileNodeInfo \<times> string \<Rightarrow> int \<times> string list \<Rightarrow> int \<times> string list" where
  "budget_step remaining i mp st =
     (let (meta, part0) = mp;
          (used, final_parts) = st;
          (part, budget) =
            (if i < 5 then
               (part0, min (int (length part0)) (min 60000 (remaining - used)))
             else if i < 15 then
               (part0, min (int (length part0)) (min 10000 (remaining - used)))
             else
               (let lines = split_nl part0;
                    trimmed = join_nl (take 80 lines);
                    trimmed = (if 80 < length lines then trimmed @ first80_marker else trimmed)
                in (trimmed, min (int (length trimmed)) (min 3000 (remaining - used)))))
      in if budget \<le> 0 then
           (let header_line = (if part \<noteq> [] then hd (split_nl part) else omitted_header meta)
            in (used + (int (length header_line) + 1), final_parts @ [header_line @ ''\<newline>'']))
         else
           (let truncated = take (nat budget) part;
                truncated = (if budget < int (length part) then truncated @ truncated_marker
                             else truncated)
            in (used + int (length truncated), final_parts @ [truncated])))"

fun budget_loop ::
  "int \<Rightarrow> nat \<Rightarrow> (FileNodeInfo \<times> string) list \<Rightarrow> int \<times> string list \<Rightarrow> int \<times> string list" where
  "budget_loop remaining i [] st = st"
| "budget_loop remaining i (mp # rest) st =
     budget_loop remaining (Suc i) rest (budget_step remaining i mp st)"

text \<open>\<open>final_parts\<close>: everything when it fits, the budgeting loop otherwise.\<close>

definition final_parts_of :: "int \<Rightarrow> (FileNodeInfo \<times> string) list \<Rightarrow> string list" where
  "final_parts_of remaining sf =
     (let total_code = sum_list (map (\<lambda>(m, p). int (length p)) sf)
      in if total_code \<le> remaining then map snd sf
         else snd (budget_loop remaining 0 sf (0, [])))"

text \<open>
  The part of \<open>scan_and_read\<close> from \<open>MAX_PAYLOAD_CHARS\<close> on, given the header built
  before it and the short header that replaces it when it leaves no room.
\<close>

definition smart_truncation :: "string \<Rightarrow> string \<Rightarrow> FileNodeInfo list \<Rightarrow> string list \<Rightarrow> string" where
  "smart_truncation header minimal metas parts =
     (let payload = header;
          remaining = MAX_PAYLOAD_CHARS - int (length payload);
          (payload, remaining) =
            (if remaining \<le> 0 then (minimal, MAX_PAYLOAD_CHARS - int (length minimal))
             else (payload, remaining));
          payload = payload @ concat (final_parts_of remaining (sorted_files metas parts))
      in if MAX_PAYLOAD_CHARS < int (length payload)
         then take (nat MAX_PAYLOAD_CHARS) payload @ payload_marker
         else payload)"

definition header_text :: "runtime \<Rightarrow> Summary \<Rightarrow> string \<Rightarrow> string" where
  "header_text rt summary tree =
     ''REPOSITORY: '' @ name summary @ ''\<newline>LANGUAGES: '' @
     json_dumps_languages rt (languages summary) @ ''\<newline>'' @
     ''FILES: '' @ str_int rt (total_files summary) @ '' | LINES: '' @
     str_int rt (total_lines summary) @ ''\<newline>AVG COMPLEXITY: '' @
     str_float rt (avg_complexity summary) @ ''/100\<newline>\<newline>'' @
     ''STRUCTURE:\<newline>'' @ tree @ ''\<newline>\<newline>IMPORT DEPS:\<newline>'' @
     json_dumps_links rt (dependency_links summary) @ ''\<newline>\<newline>''"

definition minimal_header :: "runtime \<Rightarrow> Summary \<Rightarrow> string" where
  "minimal_header rt summary =
     ''REPOSITORY: '' @ name summary @ ''\<newline>FILES: '' @
     str_int rt (total_files summary) @ ''\<newline>\<newline>''"

definition scan_and_read ::
  "runtime \<Rightarrow> RepositoryProcessor \<Rightarrow> fsdir \<Rightarrow> string \<times> FileNodeInfo list \<times> Summary" where
  "scan_and_read rt self fs =
     (let st = scan_walk rt (max_files self)
                 (os_walk (scan_dirs (include_tests self)) (root self) [] fs) scan_init;
          summary = build_summary rt self st;
          tree = generate_tree self fs;
          payload = smart_truncation (header_text rt summary tree) (minimal_header rt summary)
                      (meta_list st) (code_parts st)
      in (payload, meta_list st, summary))"

section \<open>The endpoints\<close>

datatype http_error = HTTPException (status_code: int) (detail: string)

record AnalyzeRequest =
  directory_path :: string
  nvidia_api_key :: "string option"
  req_max_files :: int
  req_include_tests :: bool
  req_depth :: int
  analysis_mode :: string

text \<open>
  What an endpoint finds around it: the value of \<open>os.getenv("NVIDIA_API_KEY", "")\<close>, the
  interpreter, and \<open>RepoResolver.resolve\<close>, which gives the local path and the directory
  found there, or raises.
\<close>

record environment =
  env_key :: string
  env_runtime :: runtime
  resolve :: "string \<Rightarrow> http_error + string \<times> fsdir"

definition get_key :: "environment \<Rightarrow> string option \<Rightarrow> http_error + string" where
  "get_key env request_key =
     (case request_key of
        Some k \<Rightarrow>
          if k \<noteq> [] \<and> strip k \<noteq> [] then Inr (strip k)
          else if strip (env_key env) \<noteq> [] then Inr (strip (env_key env))
          else Inl (HTTPException 400
                 ''No API key. Save one via POST /api/v1/save-key or pass nvidia_api_key.'')
      | None \<Rightarrow>
          if strip (env_key env) \<noteq> [] then Inr (strip (env_key env))
          else Inl (HTTPException 400
                 ''No API key. Save one via POST /api/v1/save-key or pass nvidia_api_key.''))"

record QueryRequest =
  q_directory_path :: string
  q_nvidia_api_key :: "string option"
  question :: string
  q_max_files :: int

text \<open>
  A response: the body of \<open>preview\<close>, or the stream that an endpoint opens on the model.
  The stream is named by the method of the orchestrator that feeds it, with the key the
  orchestrator was created with and the payload handed to that method (\<open>analyze\<close> puts
  the payload at the end of a longer prompt); the metadata events that some endpoints
  send before it are left out.
\<close>

datatype model_call = StreamArch | StreamQuery string | StreamSecurity | StreamOnboarding | StreamCuda

datatype response =
    PreviewBody Summary "FileNodeInfo list"
  | ModelStream model_call string string

definition processor_of :: "string \<Rightarrow> AnalyzeRequest \<Rightarrow> RepositoryProcessor" where
  "processor_of p req =
     \<lparr>root = p, max_files = req_max_files req, include_tests = req_include_tests req,
      depth = req_depth req\<rparr>"

text \<open>\<open>RepositoryProcessor(path, req.max_files)\<close>, with the defaults of the constructor.\<close>

definition query_processor_of :: "string \<Rightarrow> QueryRequest \<Rightarrow> RepositoryProcessor" where
  "query_processor_of p req =
     \<lparr>root = p, max_files = q_max_files req, include_tests = False, depth = 6\<rparr>"

definition preview :: "environment \<Rightarrow> AnalyzeRequest \<Rightarrow> http_error + response" where
  "preview env req =
     (case resolve env (directory_path req) of
        Inl e \<Rightarrow> Inl e
      | Inr (p, fs) \<Rightarrow>
          (let (payload, files, summary) = scan_and_read (env_runtime env) (processor_of p req) fs
           in Inr (PreviewBody summary files)))"

definition analyze :: "environment \<Rightarrow> AnalyzeRequest \<Rightarrow> http_error + response" where
  "analyze env req =
     (case get_key env (nvidia_api_key req) of
        Inl e \<Rightarrow> Inl e
      | Inr api_key \<Rightarrow>
          (case resolve env (directory_path req) of
             Inl e \<Rightarrow> Inl e
           | Inr (p, fs) \<Rightarrow>
               (let (payload, files, summary) =
                      scan_and_read (env_runtime env) (processor_of p req) fs
                in if files = [] then Inl (HTTPException 400 ''No source files found.'')
                   else Inr (ModelStream StreamArch api_key payload))))"

definition query :: "environment \<Rightarrow> QueryRequest \<Rightarrow> http_error + response" where
  "query env req =
     (case get_key env (q_nvidia_api_key req) of
        Inl e \<Rightarrow> Inl e
      | Inr api_key \<Rightarrow>
          (case resolve env (q_directory_path req) of
             Inl e \<Rightarrow> Inl e
           | Inr (p, fs) \<Rightarrow>
               (let (payload, files, summary) =
                      scan_and_read (env_runtime env) (query_processor_of p req) fs
                in if files = [] then Inl (HTTPException 400 ''No source files found.'')
                   else Inr (ModelStream (StreamQuery (question req)) api_key payload))))"

definition security_scan :: "environment \<Rightarrow> AnalyzeRequest \<Rightarrow> http_error + response" where
  "security_scan env req =
     (case get_key env (nvidia_api_key req) of
        Inl e \<Rightarrow> Inl e
      | Inr api_key \<Rightarrow>
          (case resolve env (directory_path req) of
             Inl e \<Rightarrow> Inl e
           | Inr (p, fs) \<Rightarrow>
               (let (payload, files, summary) =
                      scan_and_read (env_runtime env) (processor_of p req) fs
                in if files = [] then Inl (HTTPException 400 ''No source files found.'')
                   else Inr (ModelStream StreamSecurity api_key payload))))"

definition onboarding_guide :: "environment \<Rightarrow> AnalyzeRequest \<Rightarrow> http_error + response" where
  "onboarding_guide env req =
     (case get_key env (nvidia_api_key req) of
        Inl e \<Rightarrow> Inl e
      | Inr api_key \<Rightarrow>
          (case resolve env (directory_path req) of
             Inl e \<Rightarrow> Inl e
           | Inr (p, fs) \<Rightarrow>
               (let (payload, files, summary) =
                      scan_and_read (env_runtime env) (processor_of p req) fs
                in if files = [] then Inl (HTTPException 400 ''No source files found.'')
                   else Inr (ModelStream StreamOnboarding api_key payload))))"

definition cuda_analysis :: "environment \<Rightarrow> AnalyzeRequest \<Rightarrow> http_error + response" where
  "cuda_analysis env req =
     (case get_key env (nvidia_api_key req) of
        Inl e \<Rightarrow> Inl e
      | Inr api_key \<Rightarrow>
          (case resolve env (directory_path req) of
             Inl e \<Rightarrow> Inl e
           | Inr (p, fs) \<Rightarrow>
               (let (payload, files, summary) =
                      scan_and_read (env_runtime env) (processor_of p req) fs
                in if files = [] then Inl (HTTPException 400 ''No source files found.'')
                   else Inr (ModelStream StreamCuda api_key payload))))"

section \<open>The body of the budgeting loop, in parts\<close>

text \<open>
  Names for what the body of the loop computes at rank \<open>i\<close> from an excerpt \<open>part0\<close> and
  from what is left, \<open>remaining - used\<close>: the constant of its branch, the value of \<open>part\<close>
  after the branch, the value of \<open>budget\<close>, and the piece it appends for an excerpt that
  is not empty, where \<open>first_line part\<close> is \<open>part.split("\n")[0]\<close>.
\<close>

definition tier_cap :: "nat \<Rightarrow> int" where
  "tier_cap rank = (if rank \<le> 4 then 60000 else if rank \<le> 14 then 10000 else 3000)"

definition first_line :: "string \<Rightarrow> string" where
  "first_line s = takeWhile (\<lambda>c. c \<noteq> CHR 0x0A) s"

definition tier_part :: "nat \<Rightarrow> string \<Rightarrow> string" where
  "tier_part rank part0 =
     (if 15 \<le> rank
      then join_nl (take 80 (split_nl part0)) @
           (if 80 < length (split_nl part0) then first80_marker else [])
      else part0)"

definition tier_budget :: "nat \<Rightarrow> string \<Rightarrow> int \<Rightarrow> int" where
  "tier_budget rank part0 left =
     min (int (length (tier_part rank part0))) (min (tier_cap rank) left)"

definition step_piece :: "nat \<Rightarrow> string \<Rightarrow> int \<Rightarrow> string" where
  "step_piece rank part0 left =
     (let part = tier_part rank part0;
          budget = tier_budget rank part0 left
      in if budget \<le> 0 then first_line part0 @ ''\<newline>''
         else if budget < int (length part) then take (nat budget) part @ truncated_marker
         else part)"


section \<open>The budget tiers in the specification's words\<close>

text \<open>
  The specification gives each rank a cap: 60,000 characters for ranks 0 to 4, 10,000 for
  ranks 5 to 14, 3,000 from rank 15 on. From rank 15 on the excerpt is first cut to its
  first 80 lines, with a marker when it had more. The budget of a file is the smallest of
  its (cut) excerpt's length, its cap and what is left. With a budget of 0 or less the file
  still gives its file-identifying header, the line that names it, so that its existence
  is signalled; otherwise the excerpt cut to the budget, with a marker when that cut
  something off. The header of an excerpt is its first line that is not empty.
\<close>

definition file_header :: "string \<Rightarrow> string" where
  "file_header ex = first_line (dropWhile (\<lambda>c. c = CHR 0x0A) ex)"

definition spec_emit :: "nat \<Rightarrow> string \<Rightarrow> int \<Rightarrow> string" where
  "spec_emit rank ex left =
     (let shown = (if 15 \<le> rank
                   then join_nl (take 80 (split_nl ex)) @
                        (if 80 < length (split_nl ex) then first80_marker else [])
                   else ex);
          cap = (if rank \<le> 4 then 60000 else if rank \<le> 14 then 10000 else 3000);
          budget = min (int (length shown)) (min cap left)
      in if budget \<le> 0 then file_header ex @ ''\<newline>''
         else if budget < int (length shown) then take (nat budget) shown @ truncated_marker
         else shown)"

section \<open>A small example\<close>

text \<open>
  Two records and their excerpts, in discovery order \<open>util.py\<close>, \<open>main.py\<close>; the second
  is an entry point with a short excerpt.
\<close>

definition example_util :: FileNodeInfo where
  "example_util =
     \<lparr>path = ''/repo/util.py'', relative_path = ''util.py'', size_bytes = 40, line_count = 1,
      extension = ''.py'', language = ''Python'', language_color = ''#3572A5'',
      last_modified = ''2026-01-01T00:00:00'', file_imports = [], complexity_score = 5,
      has_tests = False\<rparr>"

definition example_main :: FileNodeInfo where
  "example_main =
     \<lparr>path = ''/repo/main.py'', relative_path = ''main.py'', size_bytes = 10, line_count = 1,
      extension = ''.py'', language = ''Python'', language_color = ''#3572A5'',
      last_modified = ''2026-01-01T00:00:00'', file_imports = [], complexity_score = 10,
      has_tests = False\<rparr>"



text \<open>
  A small repository: four files at the root, one of them over the size limit, and three
  subdirectories, of which \<open>node_modules\<close> is ignored and \<open>tests\<close> is left out when
  tests are excluded. The runtime lists a set in the order of first insertion, finds the
  one import of \<open>utils.py\<close>, prints fixed placeholders for numbers and JSON, and leaves
  the arithmetic exact, with the logarithms of the two line counts that occur, 1 and 2;
  what is stated of the examples depends on no score.
\<close>

definition example_file :: "int \<Rightarrow> string \<Rightarrow> fsfile" where
  "example_file n text =
     \<lparr>file_stat = Some \<lparr>st_size = n, st_mtime = 0\<rparr>, file_text = Some text\<rparr>"

definition example_repo :: fsdir where
  "example_repo =
     Dir [(''utils.py'', example_file 11 ''import main''),
          (''main.py'', example_file 15 ''if x:\<newline>    run()''),
          (''big.json'', example_file 250000 ''{}''),
          (''README.md'', example_file 6 ''# demo'')]
         [(''tests'', Dir [(''test_main.py'', example_file 11 ''import main'')] []),
          (''src'', Dir [(''app.js'', example_file 9 ''let a = 1'')] []),
          (''node_modules'', Dir [(''x.js'', example_file 9 ''let b = 2'')] [])]"

definition example_runtime :: runtime where
  "example_runtime =
     \<lparr>list_of_set = remdups,
      re_findall = (\<lambda>p text. if p = PyImport \<and> text = ''import main'' then [''main''] else []),
      isoformat = (\<lambda>t. Some ''1970-01-01T00:00:00''),
      str_int = (\<lambda>n. ''N''),
      str_float = (\<lambda>x. ''X''),
      json_dumps_languages = (\<lambda>d. ''{}''),
      json_dumps_links = (\<lambda>ls. ''[]''),
      fl_add = (\<lambda>x y. x + y),
      fl_mul = (\<lambda>x y. x * y),
      fl_div = (\<lambda>x y. x / y),
      fl_log10 = (\<lambda>x. if x = 2 then 30103 / 100000 else 0),
      fl_round1 = (\<lambda>x. real_of_int (round (x * 10)) / 10),
      fl_sum = sum_list\<rparr>"

definition example_processor :: RepositoryProcessor where
  "example_processor = \<lparr>root = ''/repo'', max_files = 3, include_tests = False, depth = 6\<rparr>"

text \<open>
  A second repository, in which \<open>c.py\<close> imports two modules that are both scanned, and two
  runtimes that differ only in the order in which they list a set.
\<close>

definition example_imports_repo :: fsdir where
  "example_imports_repo =
     Dir [(''a.py'', example_file 5 ''x = 1''),
          (''b.py'', example_file 5 ''y = 2''),
          (''c.py'', example_file 17 ''import a\<newline>import b'')]
         []"

definition example_runtime_fwd :: runtime where
  "example_runtime_fwd =
     example_runtime\<lparr>re_findall :=
       (\<lambda>p text. if p = PyImport \<and> text = ''import a\<newline>import b'' then [''a'', ''b''] else [])\<rparr>"

definition example_runtime_bwd :: runtime where
  "example_runtime_bwd = example_runtime_fwd\<lparr>list_of_set := (\<lambda>xs. rev (remdups xs))\<rparr>"

definition example_imports_processor :: RepositoryProcessor where
  "example_imports_processor =
     \<lparr>root = ''/lib'', max_files = 120, include_tests = False, depth = 6\<rparr>"

text \<open>An environment with a saved key, in which every path resolves to an empty directory.\<close>

definition example_env :: environment where
  "example_env =
     \<lparr>env_key = ''nvapi-0123456789'', env_runtime = example_runtime,
      resolve = (\<lambda>p. Inr (''/empty'', Dir [] []))\<rparr>"

definition example_request :: AnalyzeRequest where
  "example_request =
     \<lparr>directory_path = ''/empty'', nvidia_api_key = None, req_max_files = 120,
      req_include_tests = False, req_depth = 6, analysis_mode = ''full''\<rparr>"

definition example_query :: QueryRequest where
  "example_query =
     \<lparr>q_directory_path = ''/empty'', q_nvidia_api_key = None, question = ''What is this?'',
      q_max_files = 80\<rparr>"

text \<open>
  Two excerpts as the scan builds them, for records of one line each, of which the budget
  left by the header, 30 characters, is used up by the first.
\<close>

definition example_main_excerpt :: string where
  "example_main_excerpt =
     ''\<newline>--- FILE: main.py | Python | 1 lines | complexity=10.0 ---\<newline>run()\<newline>''"

definition example_util_excerpt :: string where
  "example_util_excerpt =
     ''\<newline>--- FILE: util.py | Python | 1 lines | complexity=5.0 ---\<newline>x = 1\<newline>''"




section \<open>Lines of a text\<close>

lemma split_nl_nonempty: "split_nl s \<noteq> []"
  by (induction s) (auto split: list.splits)

section \<open>The payload ceiling\<close>

lemma clip_length:
  assumes "0 \<le> M"
  shows "int (length (if M < int (length p) then take (nat M) p @ mk else p)) \<le> M + int (length mk)"
  using assms by auto

lemma clip_shape:
  assumes "0 \<le> M"
  shows "int (length (if M < int (length p) then take (nat M) p @ mk else p)) \<le> M \<or>
         (int (length (if M < int (length p) then take (nat M) p @ mk else p)) = M + int (length mk) \<and>
          suffix mk (if M < int (length p) then take (nat M) p @ mk else p))"
  using assms by (auto simp: suffix_def)

lemma payload_marker_length: "length payload_marker = 49"
  by (simp add: payload_marker_def)

lemma smart_truncation_shape:
  "int (length (smart_truncation header minimal metas parts)) \<le> MAX_PAYLOAD_CHARS \<or>
   (int (length (smart_truncation header minimal metas parts)) = MAX_PAYLOAD_CHARS + 49 \<and>
    suffix payload_marker (smart_truncation header minimal metas parts))"
proof -
  have m: "0 \<le> MAX_PAYLOAD_CHARS" by (simp add: MAX_PAYLOAD_CHARS_def)
  have k: "int (length payload_marker) = 49" by (simp add: payload_marker_length)
  show ?thesis
  proof (cases "MAX_PAYLOAD_CHARS - int (length header) \<le> 0")
    case True
    then show ?thesis
      using k clip_shape [OF m, of "minimal @ concat (final_parts_of
        (MAX_PAYLOAD_CHARS - int (length minimal)) (sorted_files metas parts))" payload_marker]
      by (simp add: smart_truncation_def Let_def)
  next
    case False
    then show ?thesis
      using k clip_shape [OF m, of "header @ concat (final_parts_of
        (MAX_PAYLOAD_CHARS - int (length header)) (sorted_files metas parts))" payload_marker]
      by (simp add: smart_truncation_def Let_def)
  qed
qed

text \<open>
  Claim C1. For every scan the payload has at most \<open>MAX_PAYLOAD_CHARS\<close> = 300,000
  characters, or it was cut at the ceiling and closed by the final marker, and then it has
  exactly 49 characters more, the length of that marker.
\<close>

theorem scan_payload_bounded:
  "MAX_PAYLOAD_CHARS = 300000 \<and>
   (int (length (fst (scan_and_read rt self fs))) \<le> MAX_PAYLOAD_CHARS \<or>
    (int (length (fst (scan_and_read rt self fs))) = MAX_PAYLOAD_CHARS + 49 \<and>
     suffix payload_marker (fst (scan_and_read rt self fs))))"
  using smart_truncation_shape
  by (simp add: scan_and_read_def Let_def MAX_PAYLOAD_CHARS_def)

section \<open>Importance and rank\<close>

lemma sorted_desc_sorted:
  "sorted_wrt (\<lambda>a b. k b \<le> k a) (sorted_desc k xs)"
proof -
  have "sorted (map (\<lambda>x. - k x) (sort_key (\<lambda>x. - k x) xs))" by (rule sorted_sort_key)
  then show ?thesis by (simp add: sorted_desc_def sorted_map)
qed

lemma sorted_desc_mset: "mset (sorted_desc k xs) = mset xs"
  by (simp add: sorted_desc_def)



text \<open>
  Claim C3. The sort key of a record is its complexity score plus 100 exactly when its
  relative path, lower-cased, contains \<open>main\<close>, \<open>app\<close>, \<open>index\<close> or \<open>server\<close>, and
  plus nothing otherwise. \<open>sorted_files\<close>, the list that the budgeting reads, holds the
  same (record, excerpt) pairs as the scan produced, in descending order of that key.
\<close>

theorem importance_order:
  "importance m =
     complexity_score m +
     (if contains (lower (relative_path m)) ''main'' \<or> contains (lower (relative_path m)) ''app'' \<or>
         contains (lower (relative_path m)) ''index'' \<or> contains (lower (relative_path m)) ''server''
      then 100 else 0) \<and>
   sorted_wrt (\<lambda>a b. importance (fst b) \<le> importance (fst a)) (sorted_files metas parts) \<and>
   mset (sorted_files metas parts) = mset (zip metas parts)"
  using sorted_desc_sorted [of "\<lambda>x. importance (fst x)" "zip metas parts"]
  by (simp add: importance_def entry_points_def sorted_files_def sorted_desc_mset)

subsection \<open>The example, evaluated\<close>





section \<open>The budgeting loop\<close>

lemma hd_split_nl: "hd (split_nl s) = first_line s"
  by (induction s) (auto simp: first_line_def split_nl_nonempty split: list.splits)

lemma split_nl_no_newline: "l \<in> set (split_nl s) \<Longrightarrow> CHR 0x0A \<notin> set l"
  by (induction s arbitrary: l) (auto split: list.splits if_splits)

lemma first_line_append_nl: "CHR 0x0A \<notin> set l \<Longrightarrow> first_line (l @ CHR 0x0A # r) = l"
  by (induction l) (auto simp: first_line_def)

lemma first_line_whole: "CHR 0x0A \<notin> set l \<Longrightarrow> first_line l = l"
  by (induction l) (auto simp: first_line_def)

lemma first_line_idem: "first_line (first_line s @ CHR 0x0A # r) = first_line s"
  by (rule first_line_append_nl) (auto simp: first_line_def dest: set_takeWhileD)

lemma join_nl_Cons:
  "join_nl (l # ls) = (if ls = [] then l else l @ CHR 0x0A # join_nl ls)"
  by (cases ls) (simp_all add: join_nl_def)

lemma first_line_join_take:
  assumes "0 < n"
  shows "first_line (join_nl (take n (split_nl s)) @ CHR 0x0A # r) = first_line s"
proof -
  obtain l ls where sp: "split_nl s = l # ls"
    using split_nl_nonempty [of s] by (cases "split_nl s") auto
  have l: "l = first_line s" using hd_split_nl [of s] sp by simp
  obtain k where n: "n = Suc k" using assms by (cases n) auto
  show ?thesis
  proof (cases "take k ls = []")
    case True
    then show ?thesis by (simp add: sp n join_nl_Cons l first_line_idem)
  next
    case False
    then show ?thesis by (simp add: sp n join_nl_Cons l first_line_idem)
  qed
qed

lemma first_line_join_take':
  assumes "0 < n"
  shows "first_line (join_nl (take n (split_nl s))) = first_line s"
proof -
  obtain l ls where sp: "split_nl s = l # ls"
    using split_nl_nonempty [of s] by (cases "split_nl s") auto
  have l: "l = first_line s" using hd_split_nl [of s] sp by simp
  have nn: "CHR 0x0A \<notin> set (first_line s)"
    by (auto simp: first_line_def dest: set_takeWhileD)
  obtain k where n: "n = Suc k" using assms by (cases n) auto
  show ?thesis
  proof (cases "take k ls = []")
    case True
    then show ?thesis using nn by (simp add: sp n join_nl_Cons l first_line_whole)
  next
    case False
    then show ?thesis by (simp add: sp n join_nl_Cons l first_line_idem)
  qed
qed

lemma first_line_pretruncate: "first_line (tier_part rank ex) = first_line ex"
proof (cases "15 \<le> rank")
  case False
  then show ?thesis by (simp add: tier_part_def)
next
  case True
  show ?thesis
  proof (cases "80 < length (split_nl ex)")
    case True
    have "first_line (join_nl (take 80 (split_nl ex)) @ first80_marker) = first_line ex"
      unfolding first80_marker_def using first_line_join_take [of 80 ex] by simp
    with True \<open>15 \<le> rank\<close> show ?thesis by (simp only: tier_part_def if_True)
  next
    case False
    have "first_line (join_nl (take 80 (split_nl ex))) = first_line ex"
      using first_line_join_take' [of 80 ex] by simp
    with False \<open>15 \<le> rank\<close> show ?thesis
      by (simp only: tier_part_def if_True if_False append_Nil2)
  qed
qed

lemma pretruncate_nonempty: "ex \<noteq> [] \<Longrightarrow> tier_part rank ex \<noteq> []"
proof -
  assume ne: "ex \<noteq> []"
  obtain l ls where sp: "split_nl ex = l # ls"
    using split_nl_nonempty [of ex] by (cases "split_nl ex") auto
  have "l = [] \<Longrightarrow> ls \<noteq> []"
    using sp ne split_nl_nonempty by (cases ex) (auto split: if_splits list.splits)
  then have "join_nl (take 80 (split_nl ex)) \<noteq> []"
    by (cases ls) (auto simp: sp join_nl_Cons)
  then show ?thesis using ne by (simp add: tier_part_def)
qed

lemma emit_core:
  assumes "ex \<noteq> []" and "b \<le> int (length ex)"
  shows "(if b \<le> 0 then
           (let header_line = (if ex \<noteq> [] then hd (split_nl ex) else oh)
            in (used + (int (length header_line) + 1), fp @ [header_line @ ''\<newline>'']))
         else
           (let truncated = take (nat b) ex;
                truncated = (if b < int (length ex) then truncated @ truncated_marker
                             else truncated)
            in (used + int (length truncated), fp @ [truncated])))
       = (used + int (length (if b \<le> 0 then first_line ex @ ''\<newline>''
                              else if b < int (length ex) then take (nat b) ex @ truncated_marker
                              else ex)),
          fp @ [if b \<le> 0 then first_line ex @ ''\<newline>''
                else if b < int (length ex) then take (nat b) ex @ truncated_marker
                else ex])"
proof (cases "b \<le> 0")
  case True
  then show ?thesis using assms(1) by (simp add: Let_def hd_split_nl)
next
  case False
  show ?thesis
  proof (cases "b < int (length ex)")
    case True
    with False show ?thesis by (simp add: Let_def)
  next
    case False
    with assms(2) have "nat b = length ex" by simp
    with False \<open>\<not> b \<le> 0\<close> show ?thesis by (simp add: Let_def)
  qed
qed


lemma budget_step_emit:
  assumes "p \<noteq> []"
  shows "budget_step remaining i (m, p) (used, fp) =
           (used + int (length (step_piece i p (remaining - used))),
            fp @ [step_piece i p (remaining - used)])"
proof -
  let ?ex = "tier_part i p"
  let ?b = "min (int (length ?ex)) (min (tier_cap i) (remaining - used))"
  have ne: "?ex \<noteq> []" using assms by (rule pretruncate_nonempty)
  have le: "?b \<le> int (length ?ex)" by (rule min.cobounded1)
  have fl: "first_line ?ex = first_line p" by (rule first_line_pretruncate)
  have tier: "(if i < 5 then (p, min (int (length p)) (min 60000 (remaining - used)))
               else if i < 15 then (p, min (int (length p)) (min 10000 (remaining - used)))
               else (let lines = split_nl p;
                         trimmed = join_nl (take 80 lines);
                         trimmed = (if 80 < length lines then trimmed @ first80_marker else trimmed)
                     in (trimmed, min (int (length trimmed)) (min 3000 (remaining - used)))))
              = (?ex, ?b)"
    by (simp add: tier_part_def tier_cap_def Let_def)
  have "budget_step remaining i (m, p) (used, fp) =
      (if ?b \<le> 0 then
           (let header_line = (if ?ex \<noteq> [] then hd (split_nl ?ex) else omitted_header m)
            in (used + (int (length header_line) + 1), fp @ [header_line @ ''\<newline>'']))
         else
           (let truncated = take (nat ?b) ?ex;
                truncated = (if ?b < int (length ?ex) then truncated @ truncated_marker
                             else truncated)
            in (used + int (length truncated), fp @ [truncated])))"
    unfolding budget_step_def by (simp only: Let_def prod.case tier [unfolded Let_def])
  also have "\<dots> = (used + int (length (if ?b \<le> 0 then first_line ?ex @ ''\<newline>''
                              else if ?b < int (length ?ex) then take (nat ?b) ?ex @ truncated_marker
                              else ?ex)),
          fp @ [if ?b \<le> 0 then first_line ?ex @ ''\<newline>''
                else if ?b < int (length ?ex) then take (nat ?b) ?ex @ truncated_marker
                else ?ex])"
    by (rule emit_core [OF ne le])
  also have "\<dots> = (used + int (length (step_piece i p (remaining - used))),
            fp @ [step_piece i p (remaining - used)])"
    by (simp only: step_piece_def tier_budget_def Let_def fl)
  finally show ?thesis .
qed

lemma budget_step_empty:
  "\<exists>pc. budget_step remaining i (m, []) (used, fp) = (used + int (length pc), fp @ [pc])"
  by (simp add: budget_step_def Let_def join_nl_def)

lemma budget_step_piece:
  "\<exists>pc. budget_step remaining i mp (used, fp) = (used + int (length pc), fp @ [pc]) \<and>
        (snd mp \<noteq> [] \<longrightarrow> pc = step_piece i (snd mp) (remaining - used))"
proof (cases mp)
  case (Pair m p)
  show ?thesis
  proof (cases "p = []")
    case True
    then show ?thesis using budget_step_empty [of remaining i m used fp] Pair by auto
  next
    case False
    then show ?thesis using budget_step_emit [of p remaining i m used fp] Pair by auto
  qed
qed

lemma budget_loop_pieces:
  "length (snd (budget_loop remaining i0 xs (used, fp))) = length fp + length xs \<and>
   take (length fp) (snd (budget_loop remaining i0 xs (used, fp))) = fp \<and>
   (\<forall>k < length xs. snd (xs ! k) \<noteq> [] \<longrightarrow>
      snd (budget_loop remaining i0 xs (used, fp)) ! (length fp + k) =
        step_piece (i0 + k) (snd (xs ! k))
          (remaining - (used + int (length (concat (take k (drop (length fp)
              (snd (budget_loop remaining i0 xs (used, fp))))))))))"
proof (induction xs arbitrary: i0 used fp)
  case Nil
  show ?case by simp
next
  case (Cons x rest)
  obtain pc where step: "budget_step remaining i0 x (used, fp) = (used + int (length pc), fp @ [pc])"
    and emit: "snd x \<noteq> [] \<longrightarrow> pc = step_piece i0 (snd x) (remaining - used)"
    using budget_step_piece [of remaining i0 x used fp] by blast
  define R where "R = snd (budget_loop remaining i0 (x # rest) (used, fp))"
  let ?n = "length fp"
  have R: "R = snd (budget_loop remaining (Suc i0) rest (used + int (length pc), fp @ [pc]))"
    by (simp add: R_def step)
  note ih = Cons.IH [of "Suc i0" "used + int (length pc)" "fp @ [pc]", folded R]
  have len: "length R = ?n + length (x # rest)" using ih by simp
  have tk: "take (Suc ?n) R = fp @ [pc]" using ih by simp
  have lt: "?n < length R" using len by simp
  have "take ?n R @ [R ! ?n] = fp @ [pc]"
    using tk take_Suc_conv_app_nth [OF lt] by simp
  then have tk0: "take ?n R = fp" and at: "R ! ?n = pc" by simp_all
  have dr: "drop ?n R = pc # drop (Suc ?n) R"
    using Cons_nth_drop_Suc [OF lt] at by simp
  have nth: "snd ((x # rest) ! k) \<noteq> [] \<longrightarrow>
      R ! (?n + k) = step_piece (i0 + k) (snd ((x # rest) ! k))
        (remaining - (used + int (length (concat (take k (drop ?n R))))))"
    if k: "k < length (x # rest)" for k
  proof (cases k)
    case 0
    then show ?thesis using at emit by simp
  next
    case (Suc k')
    then have "k' < length rest" using k by simp
    then have "snd (rest ! k') \<noteq> [] \<longrightarrow>
        R ! (length (fp @ [pc]) + k') = step_piece (Suc i0 + k') (snd (rest ! k'))
          (remaining - (used + int (length pc) +
             int (length (concat (take k' (drop (length (fp @ [pc])) R))))))"
      using ih by blast
    then show ?thesis by (simp add: Suc dr add.assoc)
  qed
  show ?case using len tk0 nth unfolding R_def by blast
qed

lemma budget_loop_nth:
  assumes "k < length sf" and "snd (sf ! k) \<noteq> []"
  shows "snd (budget_loop remaining 0 sf (0, [])) ! k =
           step_piece k (snd (sf ! k))
             (remaining - int (length (concat (take k (snd (budget_loop remaining 0 sf (0, [])))))))"
  using budget_loop_pieces [of remaining 0 sf 0 "[]"] assms by simp

lemma budget_loop_length:
  "length (snd (budget_loop remaining 0 sf (0, []))) = length sf"
  using budget_loop_pieces [of remaining 0 sf 0 "[]"] by simp

text \<open>
  On the budgeting path the loop emits one piece per file, and the piece of a non-empty
  excerpt at rank \<open>i\<close> is \<open>step_piece\<close> on what is left: the budget after the header less
  the lengths of the pieces already emitted.
\<close>

lemma tier_pieces:
  assumes "remaining < sum_list (map (\<lambda>(m, p). int (length p)) sf)"
    and "i < length sf" and "snd (sf ! i) \<noteq> []"
  shows "length (final_parts_of remaining sf) = length sf \<and>
         final_parts_of remaining sf ! i =
           step_piece i (snd (sf ! i))
             (remaining - int (length (concat (take i (final_parts_of remaining sf)))))"
proof -
  have "final_parts_of remaining sf = snd (budget_loop remaining 0 sf (0, []))"
    using assms(1) by (simp add: final_parts_of_def Let_def)
  then show ?thesis
    using budget_loop_length [of remaining sf] budget_loop_nth [OF assms(2) assms(3), of remaining]
    by simp
qed

text \<open>
  With a budget above 0 the piece is the one of the specification: the caps are 60,000
  at ranks 0 to 4, 10,000 at ranks 5 to 14 and 3,000 from rank 15, where the excerpt is
  first cut to its first 80 lines.
\<close>

lemma step_piece_spec:
  assumes "0 < tier_budget rank ex left"
  shows "step_piece rank ex left = spec_emit rank ex left"
proof -
  have "\<not> tier_budget rank ex left \<le> 0" using assms by simp
  then show ?thesis
    unfolding step_piece_def spec_emit_def tier_budget_def tier_part_def tier_cap_def Let_def
    by (simp only: if_False)
qed

subsection \<open>An exhausted budget\<close>

text \<open>
  Every excerpt that the scan builds begins with a newline, before the line
  \<open>--- FILE: ... ---\<close> that names the file.
\<close>

lemma code_part_headed: "prefix ''\<newline>'' (code_part rt rel lang n cx content)"
  by (simp add: code_part_def)

lemma headed_first_line: "prefix ''\<newline>'' p \<Longrightarrow> p \<noteq> [] \<and> first_line p = []"
  by (cases p) (auto simp: first_line_def)

lemma code_part_header:
  "prefix (''--- FILE: '' @ first_line rel) (file_header (code_part rt rel lang n cx content))"
proof -
  have "file_header (code_part rt rel lang n cx content) =
      ''--- FILE: '' @ first_line (rel @ '' | '' @ lang @ '' | '' @ str_int rt n @
         '' lines | complexity='' @ str_float rt cx @ '' ---\<newline>'' @ excerpt content @ ''\<newline>'')"
    by (simp add: file_header_def code_part_def first_line_def)
  moreover have "prefix (first_line rel) (first_line (rel @ r))" for r
    by (induction rel) (auto simp: first_line_def)
  ultimately show ?thesis by simp
qed

lemma tier_budget_exhausted: "left \<le> 0 \<Longrightarrow> tier_budget i p left \<le> 0"
  by (simp add: tier_budget_def min_le_iff_disj)

lemma step_piece_exhausted:
  assumes "prefix ''\<newline>'' p" and "left \<le> 0"
  shows "step_piece i p left = ''\<newline>''"
  using headed_first_line [OF assms(1)] tier_budget_exhausted [OF assms(2), of i p]
  by (simp add: step_piece_def Let_def)

lemma spec_emit_exhausted:
  assumes "left \<le> 0"
  shows "spec_emit i ex left = file_header ex @ ''\<newline>''"
  using assms by (simp add: spec_emit_def Let_def min_le_iff_disj)

lemma example_excerpt_pieces:
  "final_parts_of 30 [(example_main, example_main_excerpt), (example_util, example_util_excerpt)] =
     [''\<newline>--- FILE: main.py | Python | \<newline>...(truncated)...\<newline>'', ''\<newline>'']"
  by code_simp

lemma example_excerpt_spec:
  "spec_emit 1 example_util_excerpt (30 - 49) =
     ''--- FILE: util.py | Python | 1 lines | complexity=5.0 ---\<newline>''"
  by code_simp

text \<open>
  Claim C2 fails at a budget of 0 or less. The specification has such a file contribute
  its first line, a file-identifying header, and the comment in the code says the same
  (\<open>Still include file header so model knows it exists\<close>). The excerpt of every scanned
  file is \<open>code_part\<close>, which begins with a newline, so \<open>part.split("\n")[0]\<close> is the empty
  string: once \<open>k\<close> characters too many are used, the loop appends a bare newline for the
  file at every rank \<open>i\<close>, where the specification's piece is the header line, which begins
  with \<open>--- FILE:\<close> and the relative path. In the example the header leaves 30 characters
  for the excerpts of \<open>main.py\<close> and \<open>util.py\<close>: the piece of \<open>util.py\<close> is a newline, and
  its header line is lost.
\<close>

theorem exhausted_budget_drops_header:
  "budget_step (used - int k) i (meta, code_part rt rel lang n cx content) (used, final_parts) =
     (used + 1, final_parts @ [''\<newline>'']) \<and>
   spec_emit i (code_part rt rel lang n cx content) (- int k) =
     file_header (code_part rt rel lang n cx content) @ ''\<newline>'' \<and>
   prefix (''--- FILE: '' @ first_line rel) (file_header (code_part rt rel lang n cx content)) \<and>
   final_parts_of 30 [(example_main, example_main_excerpt), (example_util, example_util_excerpt)] ! 1 =
     ''\<newline>'' \<and>
   spec_emit 1 example_util_excerpt (30 - 49) =
     ''--- FILE: util.py | Python | 1 lines | complexity=5.0 ---\<newline>''"
proof -
  let ?p = "code_part rt rel lang n cx content"
  have h: "prefix ''\<newline>'' ?p" by (rule code_part_headed)
  then have ne: "?p \<noteq> []" using headed_first_line by blast
  have le: "(used - int k) - used \<le> 0" by simp
  have "budget_step (used - int k) i (meta, ?p) (used, final_parts) =
      (used + int (length (step_piece i ?p ((used - int k) - used))),
       final_parts @ [step_piece i ?p ((used - int k) - used)])"
    using ne by (rule budget_step_emit)
  then have a: "budget_step (used - int k) i (meta, ?p) (used, final_parts) =
      (used + 1, final_parts @ [''\<newline>''])"
    by (simp only: step_piece_exhausted [OF h le]) simp
  have b: "spec_emit i ?p (- int k) = file_header ?p @ ''\<newline>''"
    by (rule spec_emit_exhausted) simp
  have c: "final_parts_of 30 [(example_main, example_main_excerpt), (example_util, example_util_excerpt)] ! 1 =
     ''\<newline>''"
    by (simp only: example_excerpt_pieces) simp
  show ?thesis using a b c code_part_header example_excerpt_spec by blast
qed

subsection \<open>Importance and emitted length\<close>













section \<open>The scan: cap and size limit\<close>

lemma scan_file_meta:
  "meta_list (scan_file rt dirpath rel_dir st entry) = meta_list st \<or>
   (\<exists>r sr. meta_list (scan_file rt dirpath rel_dir st entry) = meta_list st @ [r] \<and>
      file_stat (snd entry) = Some sr \<and> \<not> 200000 < st_size sr \<and> size_bytes r = st_size sr \<and>
      relative_path r = relpath (rel_dir @ [fst entry]))"
  by (cases entry)
    (simp add: scan_file_def Let_def split: option.splits)

lemma scan_file_length:
  "length (meta_list (scan_file rt dirpath rel_dir st entry)) \<le> Suc (length (meta_list st))"
  using scan_file_meta [of rt dirpath rel_dir st entry] by auto

lemma scan_file_sizes:
  assumes "\<forall>r \<in> set (meta_list st). size_bytes r \<le> 200000"
  shows "\<forall>r \<in> set (meta_list (scan_file rt dirpath rel_dir st entry)). size_bytes r \<le> 200000"
  using scan_file_meta [of rt dirpath rel_dir st entry] assms by auto

lemma scan_files_inv:
  assumes "int (length (meta_list st)) \<le> cap"
    and "\<forall>r \<in> set (meta_list st). size_bytes r \<le> 200000"
  shows "int (length (meta_list (scan_files rt cap dirpath rel_dir files st))) \<le> cap \<and>
         (\<forall>r \<in> set (meta_list (scan_files rt cap dirpath rel_dir files st)). size_bytes r \<le> 200000)"
  using assms
proof (induction files arbitrary: st)
  case Nil
  then show ?case by simp
next
  case (Cons entry rest)
  show ?case
  proof (cases "cap \<le> int (length (meta_list st))")
    case True
    then show ?thesis using Cons.prems by simp
  next
    case False
    then have "int (length (meta_list (scan_file rt dirpath rel_dir st entry))) \<le> cap"
      using scan_file_length [of rt dirpath rel_dir st entry] by linarith
    moreover have "\<forall>r \<in> set (meta_list (scan_file rt dirpath rel_dir st entry)). size_bytes r \<le> 200000"
      using Cons.prems(2) by (rule scan_file_sizes)
    ultimately show ?thesis using Cons.IH False by simp
  qed
qed

lemma scan_walk_inv:
  assumes "int (length (meta_list st)) \<le> cap"
    and "\<forall>r \<in> set (meta_list st). size_bytes r \<le> 200000"
  shows "int (length (meta_list (scan_walk rt cap walked st))) \<le> cap \<and>
         (\<forall>r \<in> set (meta_list (scan_walk rt cap walked st)). size_bytes r \<le> 200000)"
  using assms
proof (induction walked arbitrary: st)
  case Nil
  then show ?case by simp
next
  case (Cons w rest)
  obtain dirpath rel_dir files where w: "w = (dirpath, rel_dir, files)" by (cases w) auto
  let ?st = "scan_files rt cap dirpath rel_dir (sort_key fst files) st"
  have a: "int (length (meta_list ?st)) \<le> cap"
    and b: "\<forall>r \<in> set (meta_list ?st). size_bytes r \<le> 200000"
    using scan_files_inv [OF Cons.prems, of rt dirpath rel_dir "sort_key fst files"] by simp_all
  show ?case using Cons.IH [OF a b] by (simp add: w)
qed

lemma scan_files_full:
  "cap \<le> int (length (meta_list st)) \<Longrightarrow> scan_files rt cap dirpath rel_dir files st = st"
  by (cases files) simp_all

lemma scan_walk_full:
  "cap \<le> int (length (meta_list st)) \<Longrightarrow> scan_walk rt cap walked st = st"
proof (induction walked)
  case Nil
  show ?case by simp
next
  case (Cons w rest)
  obtain dirpath rel_dir files where w: "w = (dirpath, rel_dir, files)" by (cases w) auto
  show ?case using Cons by (simp add: w scan_files_full)
qed

lemma scan_files_origin:
  "\<forall>r \<in> set (meta_list (scan_files rt cap dirpath rel_dir files st)).
     r \<in> set (meta_list st) \<or>
     (\<exists>e \<in> set files. \<exists>sr. file_stat (snd e) = Some sr \<and> size_bytes r = st_size sr \<and>
        relative_path r = relpath (rel_dir @ [fst e]))"
proof (induction files arbitrary: st)
  case Nil
  show ?case by simp
next
  case (Cons entry rest)
  show ?case
  proof (cases "cap \<le> int (length (meta_list st))")
    case True
    then show ?thesis by simp
  next
    case False
    let ?st = "scan_file rt dirpath rel_dir st entry"
    have step: "\<forall>r \<in> set (meta_list ?st). r \<in> set (meta_list st) \<or>
        (\<exists>sr. file_stat (snd entry) = Some sr \<and> size_bytes r = st_size sr \<and>
           relative_path r = relpath (rel_dir @ [fst entry]))"
      using scan_file_meta [of rt dirpath rel_dir st entry] by auto
    have "scan_files rt cap dirpath rel_dir (entry # rest) st = scan_files rt cap dirpath rel_dir rest ?st"
      using False by simp
    then show ?thesis using Cons.IH [of ?st] step by (simp only: list.set) blast
  qed
qed

lemma scan_walk_origin:
  "\<forall>r \<in> set (meta_list (scan_walk rt cap walked st)).
     r \<in> set (meta_list st) \<or>
     (\<exists>w \<in> set walked. \<exists>e \<in> set (snd (snd w)). \<exists>sr.
        file_stat (snd e) = Some sr \<and> size_bytes r = st_size sr \<and>
        relative_path r = relpath (fst (snd w) @ [fst e]))"
proof (induction walked arbitrary: st)
  case Nil
  show ?case by simp
next
  case (Cons w rest)
  obtain dirpath rel_dir files where w: "w = (dirpath, rel_dir, files)" by (cases w) auto
  let ?st = "scan_files rt cap dirpath rel_dir (sort_key fst files) st"
  have step: "\<forall>r \<in> set (meta_list ?st). r \<in> set (meta_list st) \<or>
     (\<exists>e \<in> set files. \<exists>sr. file_stat (snd e) = Some sr \<and> size_bytes r = st_size sr \<and>
        relative_path r = relpath (rel_dir @ [fst e]))"
    using scan_files_origin [of rt cap dirpath rel_dir "sort_key fst files" st] by simp
  have "scan_walk rt cap (w # rest) st = scan_walk rt cap rest ?st" by (simp add: w)
  then show ?case using Cons.IH [of ?st] step unfolding w by (simp only: list.set) fastforce
qed

text \<open>Every excerpt of a scan begins with a newline.\<close>

lemma scan_file_parts:
  assumes "\<forall>p \<in> set (code_parts st). prefix ''\<newline>'' p"
  shows "\<forall>p \<in> set (code_parts (scan_file rt dirpath rel_dir st entry)). prefix ''\<newline>'' p"
  using assms code_part_headed
  by (cases entry) (simp add: scan_file_def Let_def split: option.splits)

lemma scan_files_parts:
  assumes "\<forall>p \<in> set (code_parts st). prefix ''\<newline>'' p"
  shows "\<forall>p \<in> set (code_parts (scan_files rt cap dirpath rel_dir files st)). prefix ''\<newline>'' p"
  using assms
proof (induction files arbitrary: st)
  case Nil
  then show ?case by simp
next
  case (Cons entry rest)
  show ?case
    using Cons.IH [OF scan_file_parts [OF Cons.prems, of rt dirpath rel_dir entry]] Cons.prems
    by simp
qed

lemma scan_walk_parts:
  assumes "\<forall>p \<in> set (code_parts st). prefix ''\<newline>'' p"
  shows "\<forall>p \<in> set (code_parts (scan_walk rt cap walked st)). prefix ''\<newline>'' p"
  using assms
proof (induction walked arbitrary: st)
  case Nil
  then show ?case by simp
next
  case (Cons w rest)
  obtain dirpath rel_dir files where w: "w = (dirpath, rel_dir, files)" by (cases w) auto
  show ?case
    using Cons.IH [OF scan_files_parts [OF Cons.prems, of rt cap dirpath rel_dir "sort_key fst files"]]
    by (simp add: w)
qed

lemma scan_parts_headed:
  "\<forall>p \<in> set (code_parts (scan_walk rt cap walked scan_init)). prefix ''\<newline>'' p"
  by (rule scan_walk_parts) (simp add: scan_init_def)

text \<open>
  Claim C6. With a cap that is not negative, a scan returns at most \<open>max_files\<close>
  records. Each record has at most 200,000 bytes and is the record of a file of a walked
  directory, with that file's own size: a larger file gives no record at all. The cap
  counts the records of the whole walk, and once it is reached no directory that is
  walked afterwards changes the state.
\<close>

theorem scan_cap:
  assumes "0 \<le> max_files self"
  shows "int (length (fst (snd (scan_and_read rt self fs)))) \<le> max_files self \<and>
         (\<forall>r \<in> set (fst (snd (scan_and_read rt self fs))).
            size_bytes r \<le> 200000 \<and>
            (\<exists>w \<in> set (os_walk (scan_dirs (include_tests self)) (root self) [] fs).
               \<exists>e \<in> set (snd (snd w)). \<exists>sr.
                 file_stat (snd e) = Some sr \<and> st_size sr = size_bytes r \<and>
                 relative_path r = relpath (fst (snd w) @ [fst e]))) \<and>
         (\<forall>st walked. max_files self \<le> int (length (meta_list st)) \<longrightarrow>
            scan_walk rt (max_files self) walked st = st)"
proof -
  let ?W = "os_walk (scan_dirs (include_tests self)) (root self) [] fs"
  have files: "fst (snd (scan_and_read rt self fs)) = meta_list (scan_walk rt (max_files self) ?W scan_init)"
    by (simp add: scan_and_read_def Let_def)
  have a: "int (length (meta_list scan_init)) \<le> max_files self"
    using assms by (simp add: scan_init_def)
  have b: "\<forall>r \<in> set (meta_list scan_init). size_bytes r \<le> 200000"
    by (simp add: scan_init_def)
  have inv: "int (length (meta_list (scan_walk rt (max_files self) ?W scan_init))) \<le> max_files self \<and>
      (\<forall>r \<in> set (meta_list (scan_walk rt (max_files self) ?W scan_init)). size_bytes r \<le> 200000)"
    using a b by (rule scan_walk_inv)
  have org: "\<forall>r \<in> set (meta_list (scan_walk rt (max_files self) ?W scan_init)).
      (\<exists>w \<in> set ?W. \<exists>e \<in> set (snd (snd w)). \<exists>sr.
         file_stat (snd e) = Some sr \<and> st_size sr = size_bytes r \<and>
         relative_path r = relpath (fst (snd w) @ [fst e]))"
    using scan_walk_origin [of rt "max_files self" ?W scan_init]
    by (simp add: scan_init_def) metis
  have full: "\<forall>st walked. max_files self \<le> int (length (meta_list st)) \<longrightarrow>
      scan_walk rt (max_files self) walked st = st"
    using scan_walk_full by blast
  show ?thesis unfolding files using inv org full by blast
qed

subsection \<open>The example repository, scanned\<close>

lemma example_walk:
  "os_walk (scan_dirs False) ''/repo'' [] example_repo =
     [(''/repo'', [], dir_files example_repo),
      (''/repo/src'', [''src''], [(''app.js'', example_file 9 ''let a = 1'')])]"
  by code_simp

lemma example_sorted_names:
  "map fst (sort_key fst (dir_files example_repo)) = [''README.md'', ''big.json'', ''main.py'', ''utils.py'']"
  by code_simp

lemma example_suffixes:
  "path_suffix ''README.md'' = ''.md'' \<and> path_suffix ''big.json'' = ''.json'' \<and>
   path_suffix ''main.py'' = ''.py'' \<and> path_suffix ''utils.py'' = ''.py'' \<and>
   path_suffix ''app.js'' = ''.js''"
  by code_simp

lemma example_lower:
  "lower ''.md'' = ''.md'' \<and> lower ''.json'' = ''.json'' \<and> lower ''.py'' = ''.py'' \<and>
   lower ''.js'' = ''.js'' \<and> lower ''README.md'' = ''readme.md'' \<and>
   lower ''main.py'' = ''main.py'' \<and> lower ''utils.py'' = ''utils.py''"
  by code_simp

lemma example_supported:
  "''.md'' \<in> set SUPPORTED_EXTENSIONS \<and> ''.json'' \<in> set SUPPORTED_EXTENSIONS \<and>
   ''.py'' \<in> set SUPPORTED_EXTENSIONS \<and> ''.js'' \<in> set SUPPORTED_EXTENSIONS"
  by code_simp

lemma example_languages:
  "map_of LANGUAGE_MAP ''.md'' = Some (''Markdown'', ''#083fa1'') \<and>
   map_of LANGUAGE_MAP ''.py'' = Some (''Python'', ''#3572A5'')"
  by code_simp

lemma example_patterns:
  "map_of IMPORT_PATTERNS ''.md'' = None \<and> map_of IMPORT_PATTERNS ''.py'' = Some [PyImport, PyFrom] \<and>
   compiles PyImport \<and> compiles PyFrom"
  by code_simp

lemma example_paths:
  "path_str ''/repo'' ''README.md'' = ''/repo/README.md'' \<and>
   path_str ''/repo'' ''big.json'' = ''/repo/big.json'' \<and>
   path_str ''/repo'' ''main.py'' = ''/repo/main.py'' \<and>
   path_str ''/repo'' ''utils.py'' = ''/repo/utils.py''"
  by code_simp

lemma example_sorted_root:
  "sort_key fst (dir_files example_repo) =
     [(''README.md'', example_file 6 ''# demo''), (''big.json'', example_file 250000 ''{}''),
      (''main.py'', example_file 15 ''if x:\<newline>    run()''), (''utils.py'', example_file 11 ''import main'')]"
  by code_simp

lemma example_root_records:
  "meta_list (scan_files example_runtime 3 ''/repo'' [] (sort_key fst (dir_files example_repo)) scan_init) =
     [\<lparr>path = ''/repo/README.md'', relative_path = ''README.md'', size_bytes = 6, line_count = 1,
       extension = ''.md'', language = ''Markdown'', language_color = ''#083fa1'',
       last_modified = ''1970-01-01T00:00:00'', file_imports = [],
       complexity_score = score example_runtime ''# demo'' ''.md'', has_tests = False\<rparr>,
      \<lparr>path = ''/repo/main.py'', relative_path = ''main.py'', size_bytes = 15, line_count = 2,
       extension = ''.py'', language = ''Python'', language_color = ''#3572A5'',
       last_modified = ''1970-01-01T00:00:00'', file_imports = [],
       complexity_score = score example_runtime ''if x:\<newline>    run()'' ''.py'', has_tests = False\<rparr>,
      \<lparr>path = ''/repo/utils.py'', relative_path = ''utils.py'', size_bytes = 11, line_count = 1,
       extension = ''.py'', language = ''Python'', language_color = ''#3572A5'',
       last_modified = ''1970-01-01T00:00:00'', file_imports = [''main''],
       complexity_score = score example_runtime ''import main'' ''.py'', has_tests = False\<rparr>]"
  unfolding example_sorted_root
  by (simp add: scan_file_def Let_def example_suffixes example_lower example_supported
      example_languages example_patterns example_file_def example_runtime_def scan_init_def
      extract_imports_def relpath_def example_paths)

lemma example_files:
  "fst (snd (scan_and_read example_runtime example_processor example_repo)) =
     meta_list (scan_files example_runtime 3 ''/repo'' [] (sort_key fst (dir_files example_repo)) scan_init)"
proof -
  have "int (length (meta_list (scan_files example_runtime 3 ''/repo'' []
      (sort_key fst (dir_files example_repo)) scan_init))) = 3"
    by (simp only: example_root_records) simp
  then show ?thesis
    by (simp add: scan_and_read_def Let_def example_processor_def example_walk)
qed

lemma example_links:
  "dependency_links (snd (snd (scan_and_read example_runtime example_processor example_repo))) =
     [\<lparr>source = ''utils.py'', target = ''main.py'', link_type = ''imports'', raw = ''main''\<rparr>]"
proof -
  have k: "dict_keys [''README.md'', ''main.py'', ''utils.py''] = [''README.md'', ''main.py'', ''utils.py'']"
    by code_simp
  have r: "resolve_import ''main'' [''README.md'', ''main.py'', ''utils.py''] = Some ''main.py''"
    by code_simp
  have "meta_list (scan_walk example_runtime 3
           (os_walk (scan_dirs False) ''/repo'' [] example_repo) scan_init) =
        meta_list (scan_files example_runtime 3 ''/repo'' [] (sort_key fst (dir_files example_repo)) scan_init)"
    using example_files by (simp add: scan_and_read_def Let_def example_processor_def)
  then show ?thesis
    by (simp add: scan_and_read_def Let_def example_processor_def build_summary_def
        build_dep_links_def example_root_records k r)
qed

text \<open>
  In the example the cap of 3 is reached at the root, and the file of 250,000 bytes is
  not among the records.
\<close>

theorem scan_cap_witness:
  "(0::int) \<le> max_files example_processor \<and>
   int (length (fst (snd (scan_and_read example_runtime example_processor example_repo))))
     \<le> max_files example_processor \<and>
   map size_bytes (fst (snd (scan_and_read example_runtime example_processor example_repo))) = [6, 15, 11]"
proof -
  have mf: "max_files example_processor = 3" by (simp add: example_processor_def)
  have fs: "map size_bytes (fst (snd (scan_and_read example_runtime example_processor example_repo))) = [6, 15, 11]"
    by (simp only: example_files example_root_records) simp
  have "length (map size_bytes (fst (snd (scan_and_read example_runtime example_processor example_repo)))) = 3"
    by (simp only: fs) simp
  then have ln: "length (fst (snd (scan_and_read example_runtime example_processor example_repo))) = 3"
    by simp
  show ?thesis
    using scan_cap [of example_processor example_runtime example_repo] mf fs ln
    by simp
qed

section \<open>Dependency links\<close>

lemma find_Some_mem: "List.find P xs = Some x \<Longrightarrow> x \<in> set xs"
  by (induction xs) (auto split: if_splits)

lemma resolve_import_in: "resolve_import imp all_files = Some f \<Longrightarrow> f \<in> set all_files"
proof -
  assume a: "resolve_import imp all_files = Some f"
  then obtain c where "List.find (\<lambda>(c, f). endswith f c \<or> contains f c)
             (List.product (import_candidates imp) all_files) = Some (c, f)"
    by (auto simp: resolve_import_def split: option.splits)
  then have "(c, f) \<in> set (List.product (import_candidates imp) all_files)"
    by (rule find_Some_mem)
  then show ?thesis by simp
qed

lemma dict_keys_set: "set (dict_keys ks) = set ks"
  by (simp add: dict_keys_def)

lemma build_dep_links_elem:
  assumes "l \<in> set (build_dep_links metas)"
  shows "\<exists>m \<in> set metas. source l = relative_path m \<and> raw l \<in> set (file_imports m) \<and>
           resolve_import (raw l) (dict_keys (map relative_path metas)) = Some (target l) \<and>
           target l \<noteq> source l"
  using assms
  by (auto simp: build_dep_links_def Let_def split: option.splits if_splits)

text \<open>
  Claim C7. Every dependency link of a scan has a source other than its target; both are
  relative paths of returned records; and its target is what \<open>_resolve_import\<close> returns
  for its raw import on the scanned paths, so that an import that resolves to nothing
  gives no link.
\<close>

theorem links_sound:
  "\<forall>l \<in> set (dependency_links (snd (snd (scan_and_read rt self fs)))).
     source l \<noteq> target l \<and>
     source l \<in> relative_path ` set (fst (snd (scan_and_read rt self fs))) \<and>
     target l \<in> relative_path ` set (fst (snd (scan_and_read rt self fs))) \<and>
     resolve_import (raw l) (dict_keys (map relative_path (fst (snd (scan_and_read rt self fs)))))
       = Some (target l)"
proof
  fix l
  let ?metas = "fst (snd (scan_and_read rt self fs))"
  assume "l \<in> set (dependency_links (snd (snd (scan_and_read rt self fs))))"
  then have "l \<in> set (build_dep_links ?metas)"
    by (simp add: scan_and_read_def Let_def build_summary_def)
  then obtain m where m: "m \<in> set ?metas" "source l = relative_path m"
      "resolve_import (raw l) (dict_keys (map relative_path ?metas)) = Some (target l)"
      "target l \<noteq> source l"
    using build_dep_links_elem by blast
  have "target l \<in> set (dict_keys (map relative_path ?metas))"
    using m(3) by (rule resolve_import_in)
  then have "target l \<in> relative_path ` set ?metas" by (simp add: dict_keys_set)
  then show "source l \<noteq> target l \<and> source l \<in> relative_path ` set ?metas \<and>
     target l \<in> relative_path ` set ?metas \<and>
     resolve_import (raw l) (dict_keys (map relative_path ?metas)) = Some (target l)"
    using m by auto
qed

text \<open>In the example, the one link from \<open>utils.py\<close> to \<open>main.py\<close>.\<close>

theorem links_sound_witness:
  "dependency_links (snd (snd (scan_and_read example_runtime example_processor example_repo))) =
     [\<lparr>source = ''utils.py'', target = ''main.py'', link_type = ''imports'', raw = ''main''\<rparr>] \<and>
   ''utils.py'' \<in> relative_path ` set (fst (snd (scan_and_read example_runtime example_processor example_repo))) \<and>
   ''main.py'' \<in> relative_path ` set (fst (snd (scan_and_read example_runtime example_processor example_repo)))"
proof -
  let ?l = "\<lparr>source = ''utils.py'', target = ''main.py'', link_type = ''imports'', raw = ''main''\<rparr>"
  have "?l \<in> set (dependency_links (snd (snd (scan_and_read example_runtime example_processor example_repo))))"
    by (simp only: example_links) simp
  then have "source ?l \<in> relative_path ` set (fst (snd (scan_and_read example_runtime example_processor example_repo))) \<and>
     target ?l \<in> relative_path ` set (fst (snd (scan_and_read example_runtime example_processor example_repo)))"
    using links_sound [of example_runtime example_processor example_repo] by blast
  then show ?thesis using example_links by simp
qed

section \<open>The depth setting\<close>

lemma example_tree_depth:
  "generate_tree (example_processor\<lparr>depth := 1\<rparr>) example_repo \<noteq>
   generate_tree (example_processor\<lparr>depth := 2\<rparr>) example_repo"
  by code_simp

text \<open>
  Claim C10. Two scans that differ only in the depth setting return the same records and
  the same summary. The depth is read by \<open>generate_tree\<close> alone: the payload of a scan
  is assembled from the rendered tree of that depth and from records, excerpts and a
  summary that do not depend on it.
\<close>

theorem depth_only_in_tree:
  "snd (scan_and_read rt (self\<lparr>depth := d1\<rparr>) fs) = snd (scan_and_read rt (self\<lparr>depth := d2\<rparr>) fs) \<and>
   fst (scan_and_read rt (self\<lparr>depth := d1\<rparr>) fs) =
     smart_truncation
       (header_text rt (snd (snd (scan_and_read rt self fs))) (generate_tree (self\<lparr>depth := d1\<rparr>) fs))
       (minimal_header rt (snd (snd (scan_and_read rt self fs))))
       (fst (snd (scan_and_read rt self fs)))
       (code_parts (scan_walk rt (max_files self)
          (os_walk (scan_dirs (include_tests self)) (root self) [] fs) scan_init))"
proof -
  have s: "build_summary rt (self\<lparr>depth := d\<rparr>) st = build_summary rt self st" for d st
    by (simp add: build_summary_def)
  show ?thesis
    by (simp add: scan_and_read_def Let_def s)
qed


section \<open>A scan that accepts no file\<close>

lemma empty_dir_scan:
  "scan_and_read rt self (Dir [] []) =
     (smart_truncation
        (header_text rt (build_summary rt self scan_init) (generate_tree self (Dir [] [])))
        (minimal_header rt (build_summary rt self scan_init)) [] [],
      [], build_summary rt self scan_init)"
proof -
  have "scan_dirs (include_tests self) (root self) [] = []"
    by (simp add: scan_dirs_def)
  then have "scan_walk rt (max_files self)
      (os_walk (scan_dirs (include_tests self)) (root self) [] (Dir [] [])) scan_init = scan_init"
    by simp
  then show ?thesis
    by (simp add: scan_and_read_def Let_def scan_init_def)
qed

lemma scan_total_files:
  "total_files (snd (snd (scan_and_read rt self fs))) = int (length (fst (snd (scan_and_read rt self fs))))"
  by (simp add: scan_and_read_def Let_def build_summary_def)

lemma example_get_key: "get_key example_env None = Inr ''nvapi-0123456789''"
proof -
  have "strip ''nvapi-0123456789'' = ''nvapi-0123456789''" by code_simp
  then show ?thesis by (simp add: get_key_def example_env_def)
qed

text \<open>
  \<open>preview\<close>, which invokes no model, returns the summary and the records of every scan,
  also of one that accepted no file.
\<close>

lemma preview_returns_scan:
  assumes "resolve env (directory_path req) = Inr (p, fs)"
  shows "preview env req =
           Inr (PreviewBody (snd (snd (scan_and_read (env_runtime env) (processor_of p req) fs)))
                  (fst (snd (scan_and_read (env_runtime env) (processor_of p req) fs))))"
  using assms by (simp add: preview_def split: prod.splits)

text \<open>
  Claim C9. A scan that accepted no file is told apart from every other scan by what it
  returns: its list of records is empty exactly when the summary counts 0 files. Each
  endpoint that goes on to the model, \<open>analyze\<close>, \<open>query\<close>, \<open>security_scan\<close>,
  \<open>onboarding_guide\<close> and \<open>cuda_analysis\<close>, once it has a key and a directory, tests the
  list: on the empty list it raises the error 400 \<open>No source files found.\<close> and opens no
  stream to the model, and on any other list it opens its stream with the payload of the
  scan.
\<close>

theorem empty_scan_signalled:
  assumes "get_key env (nvidia_api_key req) = Inr api_key"
    and "resolve env (directory_path req) = Inr (p, fs)"
    and "get_key env (q_nvidia_api_key qreq) = Inr qkey"
    and "resolve env (q_directory_path qreq) = Inr (qp, qfs)"
  shows "((fst (snd (scan_and_read rt self dir)) = []) =
            (total_files (snd (snd (scan_and_read rt self dir))) = 0)) \<and>
         analyze env req =
           (if fst (snd (scan_and_read (env_runtime env) (processor_of p req) fs)) = []
            then Inl (HTTPException 400 ''No source files found.'')
            else Inr (ModelStream StreamArch api_key
                   (fst (scan_and_read (env_runtime env) (processor_of p req) fs)))) \<and>
         security_scan env req =
           (if fst (snd (scan_and_read (env_runtime env) (processor_of p req) fs)) = []
            then Inl (HTTPException 400 ''No source files found.'')
            else Inr (ModelStream StreamSecurity api_key
                   (fst (scan_and_read (env_runtime env) (processor_of p req) fs)))) \<and>
         onboarding_guide env req =
           (if fst (snd (scan_and_read (env_runtime env) (processor_of p req) fs)) = []
            then Inl (HTTPException 400 ''No source files found.'')
            else Inr (ModelStream StreamOnboarding api_key
                   (fst (scan_and_read (env_runtime env) (processor_of p req) fs)))) \<and>
         cuda_analysis env req =
           (if fst (snd (scan_and_read (env_runtime env) (processor_of p req) fs)) = []
            then Inl (HTTPException 400 ''No source files found.'')
            else Inr (ModelStream StreamCuda api_key
                   (fst (scan_and_read (env_runtime env) (processor_of p req) fs)))) \<and>
         query env qreq =
           (if fst (snd (scan_and_read (env_runtime env) (query_processor_of qp qreq) qfs)) = []
            then Inl (HTTPException 400 ''No source files found.'')
            else Inr (ModelStream (StreamQuery (question qreq)) qkey
                   (fst (scan_and_read (env_runtime env) (query_processor_of qp qreq) qfs))))"
proof -
  have t: "(fst (snd (scan_and_read rt self dir)) = []) =
            (total_files (snd (snd (scan_and_read rt self dir))) = 0)"
    by (simp add: scan_total_files)
  obtain payload files summary where
    s: "scan_and_read (env_runtime env) (processor_of p req) fs = (payload, files, summary)"
    by (cases "scan_and_read (env_runtime env) (processor_of p req) fs") auto
  obtain qpayload qfiles qsummary where
    q: "scan_and_read (env_runtime env) (query_processor_of qp qreq) qfs = (qpayload, qfiles, qsummary)"
    by (cases "scan_and_read (env_runtime env) (query_processor_of qp qreq) qfs") auto
  have a: "analyze env req =
      (if files = [] then Inl (HTTPException 400 ''No source files found.'')
       else Inr (ModelStream StreamArch api_key payload))"
    using assms(1,2) s by (simp add: analyze_def)
  have b: "security_scan env req =
      (if files = [] then Inl (HTTPException 400 ''No source files found.'')
       else Inr (ModelStream StreamSecurity api_key payload))"
    using assms(1,2) s by (simp add: security_scan_def)
  have c: "onboarding_guide env req =
      (if files = [] then Inl (HTTPException 400 ''No source files found.'')
       else Inr (ModelStream StreamOnboarding api_key payload))"
    using assms(1,2) s by (simp add: onboarding_guide_def)
  have d: "cuda_analysis env req =
      (if files = [] then Inl (HTTPException 400 ''No source files found.'')
       else Inr (ModelStream StreamCuda api_key payload))"
    using assms(1,2) s by (simp add: cuda_analysis_def)
  have e: "query env qreq =
      (if qfiles = [] then Inl (HTTPException 400 ''No source files found.'')
       else Inr (ModelStream (StreamQuery (question qreq)) qkey qpayload))"
    using assms(3,4) q by (simp add: query_def)
  show ?thesis using t a b c d e by (simp only: s q fst_conv snd_conv)
qed

text \<open>In the example environment, with a saved key and an empty directory.\<close>

theorem empty_scan_signalled_witness:
  "get_key example_env (nvidia_api_key example_request) = Inr ''nvapi-0123456789'' \<and>
   resolve example_env (directory_path example_request) = Inr (''/empty'', Dir [] []) \<and>
   get_key example_env (q_nvidia_api_key example_query) = Inr ''nvapi-0123456789'' \<and>
   resolve example_env (q_directory_path example_query) = Inr (''/empty'', Dir [] []) \<and>
   total_files (snd (snd (scan_and_read example_runtime
       (processor_of ''/empty'' example_request) (Dir [] [])))) = 0 \<and>
   analyze example_env example_request = Inl (HTTPException 400 ''No source files found.'') \<and>
   security_scan example_env example_request = Inl (HTTPException 400 ''No source files found.'') \<and>
   onboarding_guide example_env example_request = Inl (HTTPException 400 ''No source files found.'') \<and>
   cuda_analysis example_env example_request = Inl (HTTPException 400 ''No source files found.'') \<and>
   query example_env example_query = Inl (HTTPException 400 ''No source files found.'')"
proof -
  have k: "get_key example_env (nvidia_api_key example_request) = Inr ''nvapi-0123456789''"
    using example_get_key by (simp add: example_request_def)
  have a: "resolve example_env (directory_path example_request) = Inr (''/empty'', Dir [] [])"
    by (simp add: example_env_def)
  have kq: "get_key example_env (q_nvidia_api_key example_query) = Inr ''nvapi-0123456789''"
    using example_get_key by (simp add: example_query_def)
  have aq: "resolve example_env (q_directory_path example_query) = Inr (''/empty'', Dir [] [])"
    by (simp add: example_env_def)
  have e: "fst (snd (scan_and_read rt self (Dir [] []))) = []" for rt self
    by (simp add: empty_dir_scan)
  show ?thesis
    using empty_scan_signalled [OF k a kq aq, where rt = example_runtime
        and self = "processor_of ''/empty'' example_request" and dir = "Dir [] []"] k a kq aq
    by (simp only: e) simp
qed

section \<open>The order of imports\<close>

lemma example_imports_walk:
  "os_walk (scan_dirs False) ''/lib'' [] example_imports_repo = [(''/lib'', [], dir_files example_imports_repo)]"
  by code_simp

lemma example_imports_sorted:
  "sort_key fst (dir_files example_imports_repo) =
     [(''a.py'', example_file 5 ''x = 1''), (''b.py'', example_file 5 ''y = 2''),
      (''c.py'', example_file 17 ''import a\<newline>import b'')]"
  by code_simp

lemma example_imports_names:
  "path_suffix ''a.py'' = ''.py'' \<and> path_suffix ''b.py'' = ''.py'' \<and> path_suffix ''c.py'' = ''.py'' \<and>
   path_str ''/lib'' ''a.py'' = ''/lib/a.py'' \<and> path_str ''/lib'' ''b.py'' = ''/lib/b.py'' \<and>
   path_str ''/lib'' ''c.py'' = ''/lib/c.py'' \<and>
   lower ''a.py'' = ''a.py'' \<and> lower ''b.py'' = ''b.py'' \<and> lower ''c.py'' = ''c.py''"
  by code_simp

lemma example_runtimes_agree:
  "example_runtime_bwd = example_runtime_fwd\<lparr>list_of_set := (\<lambda>xs. rev (remdups xs))\<rparr> \<and>
   list_of_set example_runtime_fwd = remdups"
  by (simp add: example_runtime_bwd_def example_runtime_fwd_def example_runtime_def)

lemma example_imports_fwd:
  "map (\<lambda>r. (relative_path r, file_imports r))
     (meta_list (scan_files example_runtime_fwd 120 ''/lib'' []
        (sort_key fst (dir_files example_imports_repo)) scan_init)) =
     [(''a.py'', []), (''b.py'', []), (''c.py'', [''a'', ''b''])]"
  unfolding example_imports_sorted
  by (simp add: scan_file_def Let_def example_imports_names example_lower example_supported
      example_languages example_patterns example_file_def example_runtime_fwd_def
      example_runtime_def scan_init_def extract_imports_def relpath_def)

lemma example_imports_bwd:
  "map (\<lambda>r. (relative_path r, file_imports r))
     (meta_list (scan_files example_runtime_bwd 120 ''/lib'' []
        (sort_key fst (dir_files example_imports_repo)) scan_init)) =
     [(''a.py'', []), (''b.py'', []), (''c.py'', [''b'', ''a''])]"
  unfolding example_imports_sorted
  by (simp add: scan_file_def Let_def example_imports_names example_lower example_supported
      example_languages example_patterns example_file_def example_runtime_bwd_def
      example_runtime_fwd_def example_runtime_def scan_init_def extract_imports_def relpath_def)

lemma example_imports_files:
  "fst (snd (scan_and_read rt example_imports_processor example_imports_repo)) =
     meta_list (scan_files rt 120 ''/lib'' [] (sort_key fst (dir_files example_imports_repo)) scan_init)"
  by (simp add: scan_and_read_def Let_def example_imports_processor_def example_imports_walk)

lemma build_dep_links_projection:
  assumes "map (\<lambda>r. (relative_path r, file_imports r)) metas = prs"
  shows "map (\<lambda>l. (source l, target l, raw l)) (build_dep_links metas) =
     concat (map (\<lambda>(rel, imps). concat (map (\<lambda>imp.
        case resolve_import imp (dict_keys (map fst prs)) of
          None \<Rightarrow> []
        | Some tgt \<Rightarrow> if tgt \<noteq> [] \<and> tgt \<noteq> rel then [(rel, tgt, imp)] else []) imps)) prs)"
proof -
  have k: "map relative_path metas = map fst prs"
    using assms by (auto simp: comp_def)
  have "map (\<lambda>l. (source l, target l, raw l)) (build_dep_links metas) =
     concat (map (\<lambda>m. concat (map (\<lambda>imp.
        case resolve_import imp (dict_keys (map fst prs)) of
          None \<Rightarrow> []
        | Some tgt \<Rightarrow> if tgt \<noteq> [] \<and> tgt \<noteq> relative_path m then [(relative_path m, tgt, imp)] else [])
        (file_imports m))) metas)"
    unfolding build_dep_links_def Let_def k
    by (simp add: map_concat comp_def option.case_distrib if_distrib cong: option.case_cong if_cong)
  also have "\<dots> = concat (map (\<lambda>(rel, imps). concat (map (\<lambda>imp.
        case resolve_import imp (dict_keys (map fst prs)) of
          None \<Rightarrow> []
        | Some tgt \<Rightarrow> if tgt \<noteq> [] \<and> tgt \<noteq> rel then [(rel, tgt, imp)] else []) imps))
        (map (\<lambda>r. (relative_path r, file_imports r)) metas))"
    by (simp add: comp_def)
  finally show ?thesis using assms by simp
qed

lemma example_imports_keys: "dict_keys [''a.py'', ''b.py'', ''c.py''] = [''a.py'', ''b.py'', ''c.py'']"
  by code_simp

lemma example_imports_resolve:
  "resolve_import ''a'' [''a.py'', ''b.py'', ''c.py''] = Some ''a.py'' \<and>
   resolve_import ''b'' [''a.py'', ''b.py'', ''c.py''] = Some ''b.py''"
  by code_simp

text \<open>
  Claim C8 fails on this repository. The two runtimes differ only in the order in which
  \<open>list(set(imports))\<close> lists a set, as two interpreter processes with different hash
  seeds do. The records of the two scans differ in the imports of \<open>c.py\<close>, and the
  summaries differ in the order of the dependency links.
\<close>

theorem imports_follow_set_order:
  "example_runtime_bwd = example_runtime_fwd\<lparr>list_of_set := (\<lambda>xs. rev (remdups xs))\<rparr> \<and>
   map (\<lambda>r. (relative_path r, file_imports r))
     (fst (snd (scan_and_read example_runtime_fwd example_imports_processor example_imports_repo))) =
     [(''a.py'', []), (''b.py'', []), (''c.py'', [''a'', ''b''])] \<and>
   map (\<lambda>r. (relative_path r, file_imports r))
     (fst (snd (scan_and_read example_runtime_bwd example_imports_processor example_imports_repo))) =
     [(''a.py'', []), (''b.py'', []), (''c.py'', [''b'', ''a''])] \<and>
   map (\<lambda>l. (source l, target l, raw l))
     (dependency_links (snd (snd (scan_and_read example_runtime_fwd example_imports_processor
        example_imports_repo)))) =
     [(''c.py'', ''a.py'', ''a''), (''c.py'', ''b.py'', ''b'')] \<and>
   map (\<lambda>l. (source l, target l, raw l))
     (dependency_links (snd (snd (scan_and_read example_runtime_bwd example_imports_processor
        example_imports_repo)))) =
     [(''c.py'', ''b.py'', ''b''), (''c.py'', ''a.py'', ''a'')]"
proof -
  have d: "dependency_links (snd (snd (scan_and_read rt example_imports_processor example_imports_repo))) =
      build_dep_links (fst (snd (scan_and_read rt example_imports_processor example_imports_repo)))" for rt
    by (simp add: scan_and_read_def Let_def build_summary_def)
  have f: "map (\<lambda>r. (relative_path r, file_imports r))
     (fst (snd (scan_and_read example_runtime_fwd example_imports_processor example_imports_repo))) =
     [(''a.py'', []), (''b.py'', []), (''c.py'', [''a'', ''b''])]"
    by (simp only: example_imports_files example_imports_fwd)
  have b: "map (\<lambda>r. (relative_path r, file_imports r))
     (fst (snd (scan_and_read example_runtime_bwd example_imports_processor example_imports_repo))) =
     [(''a.py'', []), (''b.py'', []), (''c.py'', [''b'', ''a''])]"
    by (simp only: example_imports_files example_imports_bwd)
  have lf: "map (\<lambda>l. (source l, target l, raw l))
     (dependency_links (snd (snd (scan_and_read example_runtime_fwd example_imports_processor
        example_imports_repo)))) =
     [(''c.py'', ''a.py'', ''a''), (''c.py'', ''b.py'', ''b'')]"
    unfolding d build_dep_links_projection [OF f]
    by (simp add: example_imports_keys example_imports_resolve)
  have lb: "map (\<lambda>l. (source l, target l, raw l))
     (dependency_links (snd (snd (scan_and_read example_runtime_bwd example_imports_processor
        example_imports_repo)))) =
     [(''c.py'', ''b.py'', ''b''), (''c.py'', ''a.py'', ''a'')]"
    unfolding d build_dep_links_projection [OF b]
    by (simp add: example_imports_keys example_imports_resolve)
  show ?thesis using example_runtimes_agree f b lf lb by blast
qed


end
